theory Spec2Isabelle
  imports Complex_Main
begin

section \<open>Labeling-function generators of LabelingFunctionGeneratorUtils.py\<close>

text \<open>
  The module builds labeling functions: each builder reads its keyword arguments and
  returns a closure from a parsed document to an integer, the configured label or
  \<open>ABSTAIN = -1\<close>. The closures are modelled as HOL functions of the captured values and
  the document; the builders as functions from the keyword arguments to an error or a
  named closure.
\<close>

subsection \<open>Documents, errors, keyword arguments\<close>

text \<open>
  A spaCy document as the closures read it: \<open>InputSpacyDoc.text\<close> and
  \<open>InputSpacyDoc.ents\<close>, each entity with \<open>.text\<close> and \<open>.label_\<close>. A character is
  a code point below 256.
\<close>

record ent =
  ent_text :: string
  ent_label :: string

record spacy_doc =
  doc_text :: string
  ents :: "ent list"

text \<open>
  \<open>KeyError k\<close>: a builder read the absent keyword argument \<open>k\<close>. \<open>ReError\<close>: the
  \<open>re\<close> module rejected a pattern (\<open>re.error\<close>).
\<close>

datatype error = KeyError string | ReError

definition ABSTAIN :: int where
  "ABSTAIN = - 1"

text \<open>
  A Python float under \<open><\<close> and \<open>>\<close>: a comparison with NaN is false, the
  infinities bound the finite values.
\<close>

datatype pyfloat = NaN | NegInf | Fin real | PosInf

fun py_lt :: "pyfloat \<Rightarrow> pyfloat \<Rightarrow> bool" where
  "py_lt NaN _ = False"
| "py_lt _ NaN = False"
| "py_lt _ NegInf = False"
| "py_lt NegInf _ = True"
| "py_lt PosInf _ = False"
| "py_lt (Fin x) (Fin y) = (x < y)"
| "py_lt (Fin x) PosInf = True"

definition py_gt :: "pyfloat \<Rightarrow> pyfloat \<Rightarrow> bool" where
  "py_gt a b = py_lt b a"

definition py_ge :: "pyfloat \<Rightarrow> pyfloat \<Rightarrow> bool" where
  "py_ge a b = (a \<noteq> NaN \<and> b \<noteq> NaN \<and> (py_lt b a \<or> a = b))"

text \<open>
  The keyword arguments of a builder: each documented parameter is present with a value
  of its documented type, or absent.
\<close>

record kwargs =
  LabelingFunctionName :: "string option"
  NERTag :: "string option"
  ReturnLabel :: "int option"
  SubjectivityLower :: "pyfloat option"
  SubjectivityUpper :: "pyfloat option"
  PolarityLower :: "pyfloat option"
  PolarityUpper :: "pyfloat option"
  ListOfKeywords :: "string list option"
  FuzzyMatchThreshold :: "int option"

text \<open>\<open>kwargs[k]\<close>: the value, or \<open>KeyError\<close>.\<close>

definition getitem :: "string \<Rightarrow> 'a option \<Rightarrow> error + 'a" where
  "getitem k v = (case v of None \<Rightarrow> Inl (KeyError k) | Some x \<Rightarrow> Inr x)"

text \<open>No keyword argument given.\<close>

definition no_kwargs :: kwargs where
  "no_kwargs = \<lparr>LabelingFunctionName = None, NERTag = None, ReturnLabel = None,
       SubjectivityLower = None, SubjectivityUpper = None, PolarityLower = None,
       PolarityUpper = None, ListOfKeywords = None, FuzzyMatchThreshold = None\<rparr>"

text \<open>
  What a builder returns: the closure under the name given to the
  \<open>labeling_function\<close> decorator, which calls the closure on the document unchanged.
\<close>

record labeling_function =
  lf_name :: string
  lf_call :: "spacy_doc \<Rightarrow> error + int"

subsection \<open>Named-entity tag presence and absence\<close>

fun CheckNERTagPresence :: "string \<Rightarrow> int \<Rightarrow> ent list \<Rightarrow> int" where
  "CheckNERTagPresence tag rl [] = ABSTAIN"
| "CheckNERTagPresence tag rl (each_ent # rest) =
     (if ent_label each_ent = tag then rl else CheckNERTagPresence tag rl rest)"

fun CheckNERTagAbsence :: "string \<Rightarrow> int \<Rightarrow> ent list \<Rightarrow> int" where
  "CheckNERTagAbsence tag rl [] = rl"
| "CheckNERTagAbsence tag rl (each_ent # rest) =
     (if ent_label each_ent = tag then ABSTAIN else CheckNERTagAbsence tag rl rest)"

definition NERTagPresence :: "kwargs \<Rightarrow> error + labeling_function" where
  "NERTagPresence kw =
     (case getitem ''LabelingFunctionName'' (LabelingFunctionName kw) of
        Inl e \<Rightarrow> Inl e
      | Inr name \<Rightarrow>
     (case getitem ''NERTag'' (NERTag kw) of
        Inl e \<Rightarrow> Inl e
      | Inr tag \<Rightarrow>
     (case getitem ''ReturnLabel'' (ReturnLabel kw) of
        Inl e \<Rightarrow> Inl e
      | Inr rl \<Rightarrow>
          Inr \<lparr>lf_name = name,
               lf_call = (\<lambda>d. Inr (CheckNERTagPresence tag rl (ents d)))\<rparr>)))"

definition NERTagAbsence :: "kwargs \<Rightarrow> error + labeling_function" where
  "NERTagAbsence kw =
     (case getitem ''LabelingFunctionName'' (LabelingFunctionName kw) of
        Inl e \<Rightarrow> Inl e
      | Inr name \<Rightarrow>
     (case getitem ''NERTag'' (NERTag kw) of
        Inl e \<Rightarrow> Inl e
      | Inr tag \<Rightarrow>
     (case getitem ''ReturnLabel'' (ReturnLabel kw) of
        Inl e \<Rightarrow> Inl e
      | Inr rl \<Rightarrow>
          Inr \<lparr>lf_name = name,
               lf_call = (\<lambda>d. Inr (CheckNERTagAbsence tag rl (ents d)))\<rparr>)))"

subsection \<open>Sentiment thresholds\<close>

text \<open>
  \<open>sentiment\<close> stands for \<open>TextBlob(text).sentiment\<close>: the polarity and the
  subjectivity of a text.
\<close>

definition TextBlobSentimentChecker ::
  "(string \<Rightarrow> pyfloat \<times> pyfloat) \<Rightarrow> pyfloat \<Rightarrow> pyfloat \<Rightarrow> pyfloat \<Rightarrow> pyfloat \<Rightarrow> int
     \<Rightarrow> spacy_doc \<Rightarrow> int" where
  "TextBlobSentimentChecker sentiment polLower polUpper subjLower subjUpper rl d =
     (let scores = sentiment (doc_text d);
          polarity = fst scores;
          subjectivity = snd scores
      in if py_lt polarity polUpper
            \<and> py_gt polarity polLower
            \<and> py_lt subjectivity subjUpper
            \<and> py_gt subjectivity subjLower
         then rl
         else ABSTAIN)"

definition SentimentChecker ::
  "(string \<Rightarrow> pyfloat \<times> pyfloat) \<Rightarrow> kwargs \<Rightarrow> error + labeling_function" where
  "SentimentChecker sentiment kw =
     (case getitem ''LabelingFunctionName'' (LabelingFunctionName kw) of
        Inl e \<Rightarrow> Inl e
      | Inr name \<Rightarrow>
     (case getitem ''SubjectivityLower'' (SubjectivityLower kw) of
        Inl e \<Rightarrow> Inl e
      | Inr subjLower \<Rightarrow>
     (case getitem ''SubjectivityUpper'' (SubjectivityUpper kw) of
        Inl e \<Rightarrow> Inl e
      | Inr subjUpper \<Rightarrow>
     (case getitem ''PolarityLower'' (PolarityLower kw) of
        Inl e \<Rightarrow> Inl e
      | Inr polLower \<Rightarrow>
     (case getitem ''PolarityUpper'' (PolarityUpper kw) of
        Inl e \<Rightarrow> Inl e
      | Inr polUpper \<Rightarrow>
     (case getitem ''ReturnLabel'' (ReturnLabel kw) of
        Inl e \<Rightarrow> Inl e
      | Inr rl \<Rightarrow>
          Inr \<lparr>lf_name = name,
               lf_call = (\<lambda>d. Inr (TextBlobSentimentChecker sentiment
                                      polLower polUpper subjLower subjUpper rl d))\<rparr>))))))"

subsection \<open>Strings: \<open>str.lower\<close>\<close>

text \<open>
  \<open>str.lower\<close> on code points below 256: the letters A to Z and the Latin-1 capitals
  (192 to 222 but 215, the multiplication sign) move up by 32.
\<close>

definition lower_char :: "char \<Rightarrow> char" where
  "lower_char c =
     (let n = (of_char c :: nat)
      in if (65 \<le> n \<and> n \<le> 90) \<or> (192 \<le> n \<and> n \<le> 222 \<and> n \<noteq> 215)
         then char_of (n + 32) else c)"

definition lower :: "string \<Rightarrow> string" where
  "lower s = map lower_char s"

subsection \<open>Keyword presence and absence\<close>

text \<open>
  \<open>search\<close> stands for \<open>re.search\<close> as the closures use it: \<open>Some True\<close> when
  it returns a match, \<open>Some False\<close> when it returns \<open>None\<close>, and \<open>None\<close> when it
  raises \<open>re.error\<close> because the pattern does not compile.
\<close>

fun keyword_search_presence ::
  "(string \<Rightarrow> string \<Rightarrow> bool option) \<Rightarrow> string list \<Rightarrow> int \<Rightarrow> string \<Rightarrow> error + int" where
  "keyword_search_presence search [] rl s = Inr ABSTAIN"
| "keyword_search_presence search (each_keyword # rest) rl s =
     (case search (''([^a-z0-9])'' @ each_keyword @ ''([^a-z0-9])'') s of
        None \<Rightarrow> Inl ReError
      | Some found \<Rightarrow>
          if found then Inr rl else keyword_search_presence search rest rl s)"

definition CheckForKeywordExactMatch ::
  "(string \<Rightarrow> string \<Rightarrow> bool option) \<Rightarrow> string list \<Rightarrow> int \<Rightarrow> spacy_doc \<Rightarrow> error + int" where
  "CheckForKeywordExactMatch search kws rl d =
     keyword_search_presence search kws rl (lower (doc_text d))"

fun keyword_search_absence ::
  "(string \<Rightarrow> string \<Rightarrow> bool option) \<Rightarrow> string list \<Rightarrow> int \<Rightarrow> string \<Rightarrow> error + int" where
  "keyword_search_absence search [] rl s = Inr rl"
| "keyword_search_absence search (each_keyword # rest) rl s =
     (case search (''([^a-z0-9])'' @ each_keyword @ ''([^a-z0-9])'') s of
        None \<Rightarrow> Inl ReError
      | Some found \<Rightarrow>
          if found then Inr ABSTAIN else keyword_search_absence search rest rl s)"

definition CheckForKeywordAbsenceExactMatch ::
  "(string \<Rightarrow> string \<Rightarrow> bool option) \<Rightarrow> string list \<Rightarrow> int \<Rightarrow> spacy_doc \<Rightarrow> error + int" where
  "CheckForKeywordAbsenceExactMatch search kws rl d =
     keyword_search_absence search kws rl (lower (doc_text d))"

definition KeywordPresenceExactMatch ::
  "(string \<Rightarrow> string \<Rightarrow> bool option) \<Rightarrow> kwargs \<Rightarrow> error + labeling_function" where
  "KeywordPresenceExactMatch search kw =
     (case getitem ''LabelingFunctionName'' (LabelingFunctionName kw) of
        Inl e \<Rightarrow> Inl e
      | Inr name \<Rightarrow>
     (case getitem ''ListOfKeywords'' (ListOfKeywords kw) of
        Inl e \<Rightarrow> Inl e
      | Inr kws \<Rightarrow>
     (case getitem ''ReturnLabel'' (ReturnLabel kw) of
        Inl e \<Rightarrow> Inl e
      | Inr rl \<Rightarrow>
          Inr \<lparr>lf_name = name, lf_call = CheckForKeywordExactMatch search kws rl\<rparr>)))"

definition KeywordAbsenceExactMatch ::
  "(string \<Rightarrow> string \<Rightarrow> bool option) \<Rightarrow> kwargs \<Rightarrow> error + labeling_function" where
  "KeywordAbsenceExactMatch search kw =
     (case getitem ''LabelingFunctionName'' (LabelingFunctionName kw) of
        Inl e \<Rightarrow> Inl e
      | Inr name \<Rightarrow>
     (case getitem ''ListOfKeywords'' (ListOfKeywords kw) of
        Inl e \<Rightarrow> Inl e
      | Inr kws \<Rightarrow>
     (case getitem ''ReturnLabel'' (ReturnLabel kw) of
        Inl e \<Rightarrow> Inl e
      | Inr rl \<Rightarrow>
          Inr \<lparr>lf_name = name, lf_call = CheckForKeywordAbsenceExactMatch search kws rl\<rparr>)))"

subsection \<open>A model of \<open>re.search\<close> on a fragment of its patterns\<close>

text \<open>
  \<open>re.search(pattern, text)\<close> compiles the pattern and looks for a match anywhere in
  the text. The keyword closures above take it as a parameter; this model says what it
  answers on a fragment of the patterns, and is used where a property needs the answer
  on a concrete pattern. The fragment modelled: literal characters, \<open>.\<close>, character sets
  \<open>[...]\<close> and \<open>[^...]\<close> of characters and ranges, groups \<open>(...)\<close>, alternation
  \<open>|\<close>, the repeats \<open>*\<close>, \<open>+\<close>, \<open>?\<close>, and a backslash before a character that
  is no ASCII letter or digit. Anchors, \<open>{\<close>, \<open>(?\<close>, a backslash before a letter or
  digit or inside a set, a set that starts with \<open>]\<close> and a repeat that follows a
  repeat are \<open>NotModelled\<close>: the model says nothing about them. \<open>BadPattern\<close> is a
  pattern that \<open>re\<close> rejects with \<open>re.error\<close>. For this fragment a match exists exactly when a substring
  of the text is in the regular language of the pattern.
\<close>

datatype re_failure = BadPattern | NotModelled

datatype atom = AChr char | ADot | ASet bool "(char \<times> char) list"

datatype rep = RStar | RPlus | ROpt

datatype token = TAtom atom | TOpen | TClose | TBar | TRep rep

datatype rx = Zero | One | Atom atom | Seq rx rx | Alt rx rx | Star rx

definition ascii_alnum :: "char \<Rightarrow> bool" where
  "ascii_alnum c =
     (let n = (of_char c :: nat)
      in (48 \<le> n \<and> n \<le> 57) \<or> (65 \<le> n \<and> n \<le> 90) \<or> (97 \<le> n \<and> n \<le> 122))"

definition emit :: "token \<Rightarrow> re_failure + token list \<Rightarrow> re_failure + token list" where
  "emit t r = (case r of Inl e \<Rightarrow> Inl e | Inr ts \<Rightarrow> Inr (t # ts))"

text \<open>
  The lexer, left to right; it stops at the first character it rejects.
  \<open>special_of\<close> is the meaning of a character outside a set; \<open>SpBeyond\<close> marks
  the constructs left out. \<open>tokenize_set neg acc\<close> reads the body of a set after
  \<open>[\<close> or \<open>[^\<close>.
\<close>

datatype special =
  SpBackslash | SpLBracket | SpLParen | SpRParen | SpBar | SpAsterisk | SpPlus | SpQuestion | SpDot
  | SpBeyond | SpOrdinary

definition special_of :: "char \<Rightarrow> special" where
  "special_of c =
     (if c = CHR 0x5C then SpBackslash
      else if c = CHR ''['' then SpLBracket
      else if c = CHR ''('' then SpLParen
      else if c = CHR '')'' then SpRParen
      else if c = CHR ''|'' then SpBar
      else if c = CHR ''*'' then SpAsterisk
      else if c = CHR ''+'' then SpPlus
      else if c = CHR ''?'' then SpQuestion
      else if c = CHR ''.'' then SpDot
      else if c = CHR ''^'' \<or> c = CHR ''$'' \<or> c = CHR ''{'' then SpBeyond
      else SpOrdinary)"

fun tokenize :: "string \<Rightarrow> re_failure + token list"
  and tokenize_set :: "bool \<Rightarrow> (char \<times> char) list \<Rightarrow> string \<Rightarrow> re_failure + token list"
where
  "tokenize [] = Inr []"
| "tokenize (c # cs) =
     (case special_of c of
        SpBackslash \<Rightarrow>
          (case cs of
             [] \<Rightarrow> Inl BadPattern
           | d # ds \<Rightarrow> if ascii_alnum d then Inl NotModelled
                       else emit (TAtom (AChr d)) (tokenize ds))
      | SpLBracket \<Rightarrow>
          (case cs of
             [] \<Rightarrow> Inl BadPattern
           | d # ds \<Rightarrow> if d = CHR ''^'' then tokenize_set True [] ds
                       else tokenize_set False [] cs)
      | SpLParen \<Rightarrow>
          (if take 1 cs = ''?'' then Inl NotModelled else emit TOpen (tokenize cs))
      | SpRParen \<Rightarrow> emit TClose (tokenize cs)
      | SpBar \<Rightarrow> emit TBar (tokenize cs)
      | SpAsterisk \<Rightarrow> emit (TRep RStar) (tokenize cs)
      | SpPlus \<Rightarrow> emit (TRep RPlus) (tokenize cs)
      | SpQuestion \<Rightarrow> emit (TRep ROpt) (tokenize cs)
      | SpDot \<Rightarrow> emit (TAtom ADot) (tokenize cs)
      | SpBeyond \<Rightarrow> Inl NotModelled
      | SpOrdinary \<Rightarrow> emit (TAtom (AChr c)) (tokenize cs))"
| "tokenize_set neg acc [] = Inl BadPattern"
| "tokenize_set neg acc (c # cs) =
     (if c = CHR '']'' then
        (if acc = [] then Inl NotModelled
         else emit (TAtom (ASet neg acc)) (tokenize cs))
      else if c = CHR 0x5C then Inl NotModelled
      else
        (case cs of
           d # e # es \<Rightarrow>
             if d = CHR ''-'' then
               (if e = CHR '']'' then
                  emit (TAtom (ASet neg (acc @ [(c, c), (d, d)]))) (tokenize es)
                else if e = CHR 0x5C then Inl NotModelled
                else if (of_char e :: nat) < of_char c then Inl BadPattern
                else tokenize_set neg (acc @ [(c, e)]) es)
             else tokenize_set neg (acc @ [(c, c)]) cs
         | _ \<Rightarrow> tokenize_set neg (acc @ [(c, c)]) cs))"

text \<open>
  The parser keeps the open groups on a stack. A frame is the alternatives finished so
  far and the items of the branch being read.
\<close>

fun mk_seq :: "rx list \<Rightarrow> rx" where
  "mk_seq [] = One"
| "mk_seq (r # rs) = Seq r (mk_seq rs)"

fun mk_alt :: "rx list \<Rightarrow> rx" where
  "mk_alt [] = Zero"
| "mk_alt [r] = r"
| "mk_alt (r # rs) = Alt r (mk_alt rs)"

definition close_frame :: "rx list \<times> rx list \<Rightarrow> rx" where
  "close_frame fr = mk_alt (fst fr @ [mk_seq (snd fr)])"

fun repeat :: "rep \<Rightarrow> rx \<Rightarrow> rx" where
  "repeat RStar r = Star r"
| "repeat RPlus r = Seq r (Star r)"
| "repeat ROpt r = Alt r One"

fun starts_with_repeat :: "token list \<Rightarrow> bool" where
  "starts_with_repeat (TRep q # ts) = True"
| "starts_with_repeat ts = False"

fun parse_tokens ::
  "(rx list \<times> rx list) list \<Rightarrow> rx list \<times> rx list \<Rightarrow> token list \<Rightarrow> re_failure + rx" where
  "parse_tokens stack fr [] = (if stack = [] then Inr (close_frame fr) else Inl BadPattern)"
| "parse_tokens stack fr (TAtom a # ts) =
     parse_tokens stack (fst fr, snd fr @ [Atom a]) ts"
| "parse_tokens stack fr (TOpen # ts) = parse_tokens (fr # stack) ([], []) ts"
| "parse_tokens [] fr (TClose # ts) = Inl BadPattern"
| "parse_tokens (up # stack) fr (TClose # ts) =
     parse_tokens stack (fst up, snd up @ [close_frame fr]) ts"
| "parse_tokens stack fr (TBar # ts) =
     parse_tokens stack (fst fr @ [mk_seq (snd fr)], []) ts"
| "parse_tokens stack fr (TRep q # ts) =
     (if snd fr = [] then Inl BadPattern
      else if starts_with_repeat ts then Inl NotModelled
      else parse_tokens stack
             (fst fr, butlast (snd fr) @ [repeat q (last (snd fr))]) ts)"

definition re_compile :: "string \<Rightarrow> re_failure + rx" where
  "re_compile pattern =
     (case tokenize pattern of
        Inl e \<Rightarrow> Inl e
      | Inr ts \<Rightarrow> parse_tokens [] ([], []) ts)"

text \<open>Matching by derivatives of the pattern.\<close>

fun in_ranges :: "char \<Rightarrow> (char \<times> char) list \<Rightarrow> bool" where
  "in_ranges c [] = False"
| "in_ranges c (r # rs) =
     (((of_char (fst r) :: nat) \<le> of_char c \<and> (of_char c :: nat) \<le> of_char (snd r))
      \<or> in_ranges c rs)"

fun atom_matches :: "atom \<Rightarrow> char \<Rightarrow> bool" where
  "atom_matches (AChr a) c = (c = a)"
| "atom_matches ADot c = (c \<noteq> CHR 0x0A)"
| "atom_matches (ASet neg rs) c = (in_ranges c rs \<noteq> neg)"

fun nullable :: "rx \<Rightarrow> bool" where
  "nullable Zero = False"
| "nullable One = True"
| "nullable (Atom a) = False"
| "nullable (Seq r s) = (nullable r \<and> nullable s)"
| "nullable (Alt r s) = (nullable r \<or> nullable s)"
| "nullable (Star r) = True"

text \<open>
  The derivative drops what can no longer match (\<open>Zero\<close>) and what has matched
  (\<open>One\<close>) as it goes, so that it stays small.
\<close>

fun simp_seq :: "rx \<Rightarrow> rx \<Rightarrow> rx" where
  "simp_seq Zero s = Zero"
| "simp_seq One s = s"
| "simp_seq r s = Seq r s"

fun simp_alt :: "rx \<Rightarrow> rx \<Rightarrow> rx" where
  "simp_alt Zero s = s"
| "simp_alt r Zero = r"
| "simp_alt r s = Alt r s"

fun deriv :: "char \<Rightarrow> rx \<Rightarrow> rx" where
  "deriv c Zero = Zero"
| "deriv c One = Zero"
| "deriv c (Atom a) = (if atom_matches a c then One else Zero)"
| "deriv c (Seq r s) =
     (if nullable r then simp_alt (simp_seq (deriv c r) s) (deriv c s)
      else simp_seq (deriv c r) s)"
| "deriv c (Alt r s) = simp_alt (deriv c r) (deriv c s)"
| "deriv c (Star r) = simp_seq (deriv c r) (Star r)"

text \<open>\<open>match_here r s\<close>: some prefix of \<open>s\<close> matches \<open>r\<close>.\<close>

fun match_here :: "rx \<Rightarrow> string \<Rightarrow> bool" where
  "match_here r [] = nullable r"
| "match_here r (c # cs) = (nullable r \<or> match_here (deriv c r) cs)"

fun search_rx :: "rx \<Rightarrow> string \<Rightarrow> bool" where
  "search_rx r [] = nullable r"
| "search_rx r (c # cs) = (match_here r (c # cs) \<or> search_rx r cs)"

text \<open>The model: is there a match of the pattern in the text?\<close>

definition re_model :: "string \<Rightarrow> string \<Rightarrow> re_failure + bool" where
  "re_model pattern s =
     (case re_compile pattern of
        Inl e \<Rightarrow> Inl e
      | Inr r \<Rightarrow> Inr (search_rx r s))"

text \<open>
  A search function follows the model when it answers as the model does wherever the
  model answers: the truth value of the match, or \<open>None\<close> for \<open>re.error\<close>.
\<close>

definition follows_re :: "(string \<Rightarrow> string \<Rightarrow> bool option) \<Rightarrow> bool" where
  "follows_re search =
     (\<forall>pattern s.
        (case re_model pattern s of
           Inr found \<Rightarrow> search pattern s = Some found
         | Inl BadPattern \<Rightarrow> search pattern s = None
         | Inl NotModelled \<Rightarrow> True))"

text \<open>
  One search function that follows the model, for examples; where the model is silent
  its value is of no account and is set to \<open>None\<close>.
\<close>

definition model_search :: "string \<Rightarrow> string \<Rightarrow> bool option" where
  "model_search pattern s =
     (case re_model pattern s of Inr found \<Rightarrow> Some found | Inl _ \<Rightarrow> None)"

subsection \<open>Fuzzy match of named entities against a gazetteer\<close>

text \<open>
  \<open>ratio\<close> stands for \<open>fuzz.token_sort_ratio\<close>. The inner loop runs over
  \<open>list(set(ListOfKeywords))\<close>, the distinct names in an order Python does not fix;
  \<open>remdups\<close> is one such order. \<open>max_ratio\<close> is set to 0 once, before the loop over
  the entities, and carried through it.
\<close>

fun names_loop :: "(string \<Rightarrow> string \<Rightarrow> int) \<Rightarrow> string \<Rightarrow> int \<Rightarrow> string list \<Rightarrow> int" where
  "names_loop ratio entity max_ratio [] = max_ratio"
| "names_loop ratio entity max_ratio (each_name # rest) =
     (let fuzzRatio = ratio (lower entity) (lower each_name)
      in names_loop ratio entity (if fuzzRatio > max_ratio then fuzzRatio else max_ratio) rest)"

fun ents_loop ::
  "(string \<Rightarrow> string \<Rightarrow> int) \<Rightarrow> string list \<Rightarrow> int \<Rightarrow> int \<Rightarrow> string \<Rightarrow> int \<Rightarrow> ent list \<Rightarrow> int" where
  "ents_loop ratio kws rl threshold tag max_ratio [] = ABSTAIN"
| "ents_loop ratio kws rl threshold tag max_ratio (each_ent # rest) =
     (if ent_label each_ent = tag then
        (let max_ratio' = names_loop ratio (ent_text each_ent) max_ratio (remdups kws)
         in if max_ratio' \<ge> threshold then rl
            else ents_loop ratio kws rl threshold tag max_ratio' rest)
      else ents_loop ratio kws rl threshold tag max_ratio rest)"

definition CheckForNamedEntityFuzzyMatch ::
  "(string \<Rightarrow> string \<Rightarrow> int) \<Rightarrow> string list \<Rightarrow> int \<Rightarrow> int \<Rightarrow> string \<Rightarrow> spacy_doc \<Rightarrow> int" where
  "CheckForNamedEntityFuzzyMatch ratio kws rl threshold tag d =
     ents_loop ratio kws rl threshold tag 0 (ents d)"

definition NamedEntityFuzzyMatch ::
  "(string \<Rightarrow> string \<Rightarrow> int) \<Rightarrow> kwargs \<Rightarrow> error + labeling_function" where
  "NamedEntityFuzzyMatch ratio kw =
     (case getitem ''LabelingFunctionName'' (LabelingFunctionName kw) of
        Inl e \<Rightarrow> Inl e
      | Inr name \<Rightarrow>
     (case getitem ''ListOfKeywords'' (ListOfKeywords kw) of
        Inl e \<Rightarrow> Inl e
      | Inr kws \<Rightarrow>
     (case getitem ''ReturnLabel'' (ReturnLabel kw) of
        Inl e \<Rightarrow> Inl e
      | Inr rl \<Rightarrow>
     (case getitem ''FuzzyMatchThreshold'' (FuzzyMatchThreshold kw) of
        Inl e \<Rightarrow> Inl e
      | Inr threshold \<Rightarrow>
     (case getitem ''NERTag'' (NERTag kw) of
        Inl e \<Rightarrow> Inl e
      | Inr tag \<Rightarrow>
          Inr \<lparr>lf_name = name,
               lf_call = (\<lambda>d. Inr (CheckForNamedEntityFuzzyMatch ratio kws rl
                                      threshold tag d))\<rparr>)))))"

subsection \<open>Notions the properties are stated with\<close>

text \<open>Did a call raise \<open>KeyError\<close>?\<close>

fun is_KeyError :: "error + 'a \<Rightarrow> bool" where
  "is_KeyError (Inl (KeyError k)) = True"
| "is_KeyError _ = False"

text \<open>
  The reference algorithm of the fuzzy matcher, from the specification: entities in
  document order; for an entity of the tag, the maximum score over the distinct
  gazetteer entries, both sides lowercased; the label at the first entity whose own
  maximum reaches the threshold, else ABSTAIN. The maximum is taken with the floor 0
  the running maximum starts from; scores lie in 0..100.
\<close>

definition entity_max :: "(string \<Rightarrow> string \<Rightarrow> int) \<Rightarrow> string list \<Rightarrow> string \<Rightarrow> int" where
  "entity_max ratio kws entity =
     Max (insert 0 ((\<lambda>name. ratio (lower entity) (lower name)) ` set kws))"


text \<open>
  The specification's reading of the keyword test: the keyword occurs in the text as a
  literal string, with a character outside a-z and 0-9 right before it and right after
  it.
\<close>

definition boundary :: "char \<Rightarrow> bool" where
  "boundary c =
     (let n = (of_char c :: nat)
      in \<not> ((97 \<le> n \<and> n \<le> 122) \<or> (48 \<le> n \<and> n \<le> 57)))"

fun occurs_bounded :: "string \<Rightarrow> string \<Rightarrow> bool" where
  "occurs_bounded kw [] = False"
| "occurs_bounded kw (c # cs) =
     ((boundary c \<and> length kw < length cs \<and> take (length kw) cs = kw
        \<and> boundary (cs ! length kw))
      \<or> occurs_bounded kw cs)"

text \<open>A keyword none of whose characters means anything to \<open>re\<close>.\<close>

definition plain_keyword :: "string \<Rightarrow> bool" where
  "plain_keyword kw = list_all (\<lambda>c. special_of c = SpOrdinary) kw"

text \<open>The regular language of a pattern, to state what the matcher decides.\<close>

definition conc :: "string set \<Rightarrow> string set \<Rightarrow> string set" where
  "conc A B = {xs @ ys | xs ys. xs \<in> A \<and> ys \<in> B}"

inductive_set star :: "string set \<Rightarrow> string set" for A :: "string set" where
  star_empty: "[] \<in> star A"
| star_step: "xs \<in> A \<Longrightarrow> ys \<in> star A \<Longrightarrow> xs @ ys \<in> star A"

fun lang :: "rx \<Rightarrow> string set" where
  "lang Zero = {}"
| "lang One = {[]}"
| "lang (Atom a) = {[c] | c. atom_matches a c}"
| "lang (Seq r s) = conc (lang r) (lang s)"
| "lang (Alt r s) = lang r \<union> lang s"
| "lang (Star r) = star (lang r)"

section \<open>Properties\<close>

subsection \<open>What a successful builder returns\<close>

lemma getitem_Inr: "getitem k v = Inr x \<longleftrightarrow> v = Some x"
  by (cases v) (simp_all add: getitem_def)

lemma getitem_Inl: "getitem k v = Inl e \<longleftrightarrow> v = None \<and> e = KeyError k"
  by (cases v) (auto simp: getitem_def)

lemma NERTagPresence_Inr:
  "NERTagPresence kw = Inr p \<longleftrightarrow>
     (\<exists>name tag rl. LabelingFunctionName kw = Some name \<and> NERTag kw = Some tag
        \<and> ReturnLabel kw = Some rl
        \<and> p = \<lparr>lf_name = name, lf_call = (\<lambda>d. Inr (CheckNERTagPresence tag rl (ents d)))\<rparr>)"
  by (auto simp: NERTagPresence_def getitem_def split: option.splits)

lemma NERTagAbsence_Inr:
  "NERTagAbsence kw = Inr a \<longleftrightarrow>
     (\<exists>name tag rl. LabelingFunctionName kw = Some name \<and> NERTag kw = Some tag
        \<and> ReturnLabel kw = Some rl
        \<and> a = \<lparr>lf_name = name, lf_call = (\<lambda>d. Inr (CheckNERTagAbsence tag rl (ents d)))\<rparr>)"
  by (auto simp: NERTagAbsence_def getitem_def split: option.splits)

lemma KeywordPresenceExactMatch_Inr:
  "KeywordPresenceExactMatch search kw = Inr p \<longleftrightarrow>
     (\<exists>name kws rl. LabelingFunctionName kw = Some name \<and> ListOfKeywords kw = Some kws
        \<and> ReturnLabel kw = Some rl
        \<and> p = \<lparr>lf_name = name, lf_call = CheckForKeywordExactMatch search kws rl\<rparr>)"
  by (auto simp: KeywordPresenceExactMatch_def getitem_def split: option.splits)

lemma KeywordAbsenceExactMatch_Inr:
  "KeywordAbsenceExactMatch search kw = Inr a \<longleftrightarrow>
     (\<exists>name kws rl. LabelingFunctionName kw = Some name \<and> ListOfKeywords kw = Some kws
        \<and> ReturnLabel kw = Some rl
        \<and> a = \<lparr>lf_name = name, lf_call = CheckForKeywordAbsenceExactMatch search kws rl\<rparr>)"
  by (auto simp: KeywordAbsenceExactMatch_def getitem_def split: option.splits)

lemma SentimentChecker_Inr:
  "SentimentChecker sentiment kw = Inr f \<longleftrightarrow>
     (\<exists>name sl su pl pu rl. LabelingFunctionName kw = Some name
        \<and> SubjectivityLower kw = Some sl \<and> SubjectivityUpper kw = Some su
        \<and> PolarityLower kw = Some pl \<and> PolarityUpper kw = Some pu
        \<and> ReturnLabel kw = Some rl
        \<and> f = \<lparr>lf_name = name,
                lf_call = (\<lambda>d. Inr (TextBlobSentimentChecker sentiment pl pu sl su rl d))\<rparr>)"
  by (auto simp: SentimentChecker_def getitem_def split: option.splits)

lemma NamedEntityFuzzyMatch_Inr:
  "NamedEntityFuzzyMatch ratio kw = Inr f \<longleftrightarrow>
     (\<exists>name kws rl threshold tag. LabelingFunctionName kw = Some name
        \<and> ListOfKeywords kw = Some kws \<and> ReturnLabel kw = Some rl
        \<and> FuzzyMatchThreshold kw = Some threshold \<and> NERTag kw = Some tag
        \<and> f = \<lparr>lf_name = name,
                lf_call = (\<lambda>d. Inr (CheckForNamedEntityFuzzyMatch ratio kws rl
                                       threshold tag d))\<rparr>)"
  by (auto simp: NamedEntityFuzzyMatch_def getitem_def split: option.splits)

subsection \<open>Entity tag presence and absence are complements\<close>

lemma presence_label_iff_absence_abstain:
  "CheckNERTagPresence tag rl es = rl \<longleftrightarrow> CheckNERTagAbsence tag rl es = ABSTAIN"
  by (induction es) auto

lemma presence_abstain_iff_absence_label:
  "CheckNERTagPresence tag rl es = ABSTAIN \<longleftrightarrow> CheckNERTagAbsence tag rl es = rl"
  by (induction es) auto

lemma presence_range: "CheckNERTagPresence tag rl es = rl \<or> CheckNERTagPresence tag rl es = ABSTAIN"
  by (induction es) auto

lemma absence_range: "CheckNERTagAbsence tag rl es = rl \<or> CheckNERTagAbsence tag rl es = ABSTAIN"
  by (induction es) auto

text \<open>
  C1. For one configuration (name, NERTag, ReturnLabel) and every document, both built
  functions return a value; the function built by NERTagPresence returns ReturnLabel
  exactly when the function built by NERTagAbsence returns ABSTAIN, and it returns
  ABSTAIN exactly when the other returns ReturnLabel. On a document with no entities
  presence abstains and absence returns ReturnLabel.
\<close>

theorem NERTag_presence_absence_complement:
  assumes "NERTagPresence kw = Inr p"
    and "NERTagAbsence kw = Inr a"
    and "ReturnLabel kw = Some rl"
  shows "(lf_call p d = Inr rl \<or> lf_call p d = Inr ABSTAIN)
       \<and> (lf_call a d = Inr rl \<or> lf_call a d = Inr ABSTAIN)
       \<and> (lf_call p d = Inr rl \<longleftrightarrow> lf_call a d = Inr ABSTAIN)
       \<and> (lf_call p d = Inr ABSTAIN \<longleftrightarrow> lf_call a d = Inr rl)
       \<and> (ents d = [] \<longrightarrow> lf_call p d = Inr ABSTAIN \<and> lf_call a d = Inr rl)"
proof -
  from assms(1,3) obtain name tag where
    p: "p = \<lparr>lf_name = name, lf_call = (\<lambda>d. Inr (CheckNERTagPresence tag rl (ents d)))\<rparr>"
    and tag: "NERTag kw = Some tag"
    by (auto simp: NERTagPresence_Inr)
  from assms(2,3) tag obtain name' where
    a: "a = \<lparr>lf_name = name', lf_call = (\<lambda>d. Inr (CheckNERTagAbsence tag rl (ents d)))\<rparr>"
    by (auto simp: NERTagAbsence_Inr)
  show ?thesis
    using presence_label_iff_absence_abstain [of tag rl "ents d"]
      presence_abstain_iff_absence_label [of tag rl "ents d"]
      presence_range [of tag rl "ents d"] absence_range [of tag rl "ents d"]
    by (auto simp: p a)
qed

theorem NERTag_presence_absence_complement_witness:
  "NERTagPresence \<lparr>LabelingFunctionName = Some ''LF_org'', NERTag = Some ''ORG'',
       ReturnLabel = Some 1, SubjectivityLower = None, SubjectivityUpper = None,
       PolarityLower = None, PolarityUpper = None, ListOfKeywords = None,
       FuzzyMatchThreshold = None\<rparr>
     = Inr \<lparr>lf_name = ''LF_org'',
            lf_call = (\<lambda>d. Inr (CheckNERTagPresence ''ORG'' 1 (ents d)))\<rparr>
   \<and> NERTagAbsence \<lparr>LabelingFunctionName = Some ''LF_org'', NERTag = Some ''ORG'',
       ReturnLabel = Some 1, SubjectivityLower = None, SubjectivityUpper = None,
       PolarityLower = None, PolarityUpper = None, ListOfKeywords = None,
       FuzzyMatchThreshold = None\<rparr>
     = Inr \<lparr>lf_name = ''LF_org'',
            lf_call = (\<lambda>d. Inr (CheckNERTagAbsence ''ORG'' 1 (ents d)))\<rparr>
   \<and> CheckNERTagPresence ''ORG'' 1 [\<lparr>ent_text = ''Acme Corp'', ent_label = ''ORG''\<rparr>] = 1
   \<and> CheckNERTagAbsence ''ORG'' 1 [\<lparr>ent_text = ''Acme Corp'', ent_label = ''ORG''\<rparr>] = ABSTAIN
   \<and> CheckNERTagPresence ''ORG'' 1 [\<lparr>ent_text = ''Jane'', ent_label = ''PERSON''\<rparr>] = ABSTAIN
   \<and> CheckNERTagAbsence ''ORG'' 1 [\<lparr>ent_text = ''Jane'', ent_label = ''PERSON''\<rparr>] = 1"
proof -
  let ?kw = "\<lparr>LabelingFunctionName = Some ''LF_org'', NERTag = Some ''ORG'',
       ReturnLabel = Some (1::int), SubjectivityLower = None, SubjectivityUpper = None,
       PolarityLower = None, PolarityUpper = None, ListOfKeywords = None,
       FuzzyMatchThreshold = None\<rparr>"
  let ?p = "\<lparr>lf_name = ''LF_org'',
            lf_call = (\<lambda>d. Inr (CheckNERTagPresence ''ORG'' 1 (ents d)) :: error + int)\<rparr>"
  let ?a = "\<lparr>lf_name = ''LF_org'',
            lf_call = (\<lambda>d. Inr (CheckNERTagAbsence ''ORG'' 1 (ents d)) :: error + int)\<rparr>"
  have h1: "NERTagPresence ?kw = Inr ?p"
    by (simp add: NERTagPresence_def getitem_def)
  have h2: "NERTagAbsence ?kw = Inr ?a"
    by (simp add: NERTagAbsence_def getitem_def)
  have h3: "ReturnLabel ?kw = Some 1"
    by simp
  have org: "CheckNERTagPresence ''ORG'' 1 [\<lparr>ent_text = ''Acme Corp'', ent_label = ''ORG''\<rparr>] = 1"
    by simp
  have per: "CheckNERTagPresence ''ORG'' 1 [\<lparr>ent_text = ''Jane'', ent_label = ''PERSON''\<rparr>] = ABSTAIN"
    by simp
  show ?thesis
    using h1 h2 org per
      NERTag_presence_absence_complement [OF h1 h2 h3,
        of "\<lparr>doc_text = ''Acme Corp hired'', ents = [\<lparr>ent_text = ''Acme Corp'', ent_label = ''ORG''\<rparr>]\<rparr>"]
      NERTag_presence_absence_complement [OF h1 h2 h3,
        of "\<lparr>doc_text = ''Jane left'', ents = [\<lparr>ent_text = ''Jane'', ent_label = ''PERSON''\<rparr>]\<rparr>"]
    by (simp add: ABSTAIN_def)
qed

subsection \<open>Keyword presence and absence are complements\<close>

text \<open>These hold for every search function, so for \<open>re.search\<close> whatever it answers.\<close>

lemma keyword_presence_label_iff:
  "keyword_search_presence search kws rl s = Inr rl
     \<longleftrightarrow> keyword_search_absence search kws rl s = Inr ABSTAIN"
  by (induction kws) (auto split: option.splits)

lemma keyword_presence_abstain_iff:
  "keyword_search_presence search kws rl s = Inr ABSTAIN
     \<longleftrightarrow> keyword_search_absence search kws rl s = Inr rl"
  by (induction kws) (auto split: option.splits)

lemma keyword_error_iff:
  "keyword_search_presence search kws rl s = Inl e
     \<longleftrightarrow> keyword_search_absence search kws rl s = Inl e"
  by (induction kws) (auto split: option.splits)

lemma keyword_presence_outcomes:
  "keyword_search_presence search kws rl s = Inr rl
   \<or> keyword_search_presence search kws rl s = Inr ABSTAIN
   \<or> keyword_search_presence search kws rl s = Inl ReError"
  by (induction kws) (auto split: option.splits)

lemma keyword_absence_outcomes:
  "keyword_search_absence search kws rl s = Inr rl
   \<or> keyword_search_absence search kws rl s = Inr ABSTAIN
   \<or> keyword_search_absence search kws rl s = Inl ReError"
  by (induction kws) (auto split: option.splits)



subsection \<open>No \<open>KeyError\<close> after construction\<close>

lemma is_KeyError_iff: "is_KeyError r \<longleftrightarrow> (\<exists>k. r = Inl (KeyError k))"
  by (cases r rule: is_KeyError.cases) simp_all

lemma keyword_presence_no_KeyError:
  "keyword_search_presence search kws rl s \<noteq> Inl (KeyError k)"
  using keyword_presence_outcomes [of search kws rl s] by auto

lemma keyword_absence_no_KeyError:
  "keyword_search_absence search kws rl s \<noteq> Inl (KeyError k)"
  using keyword_absence_outcomes [of search kws rl s] by auto

subsection \<open>Comparisons of floats\<close>

lemma py_lt_irrefl: "\<not> py_lt a a"
  by (cases a) auto

lemma py_lt_trans: "py_lt a b \<Longrightarrow> py_lt b c \<Longrightarrow> py_lt a c"
  by (cases a; cases b; cases c) auto

lemma py_ge_not_between: "py_ge lo hi \<Longrightarrow> py_lt lo x \<Longrightarrow> py_lt x hi \<Longrightarrow> False"
  using py_lt_trans [of lo x hi] py_lt_trans [of lo hi lo] py_lt_irrefl [of lo]
  by (auto simp: py_ge_def)

subsection \<open>The fuzzy matcher: a threshold at or below zero\<close>

lemma names_loop_ge: "max_ratio \<le> names_loop ratio entity max_ratio names"
proof (induction names arbitrary: max_ratio)
  case Nil
  show ?case by simp
next
  case (Cons n ns)
  have "max_ratio \<le> (if ratio (lower entity) (lower n) > max_ratio
                       then ratio (lower entity) (lower n) else max_ratio)"
    by simp
  also have "\<dots> \<le> names_loop ratio entity \<dots> ns"
    by (rule Cons.IH)
  finally show ?case by (simp add: Let_def)
qed

lemma ents_loop_low_threshold:
  "threshold \<le> max_ratio \<Longrightarrow> \<exists>e \<in> set es. ent_label e = tag \<Longrightarrow>
   ents_loop ratio kws rl threshold tag max_ratio es = rl"
proof (induction es)
  case Nil
  then show ?case by simp
next
  case (Cons e es)
  show ?case
  proof (cases "ent_label e = tag")
    case True
    have "threshold \<le> names_loop ratio (ent_text e) max_ratio (remdups kws)"
      using Cons.prems(1) names_loop_ge [of max_ratio ratio "ent_text e" "remdups kws"]
      by linarith
    with True show ?thesis by (simp add: Let_def)
  next
    case False
    with Cons show ?thesis by auto
  qed
qed


subsection \<open>The fuzzy matcher against its reference algorithm\<close>









lemma entity_max_is_Max:
  assumes "kws \<noteq> []" and "\<forall>name \<in> set kws. 0 \<le> ratio (lower entity) (lower name)"
  shows "entity_max ratio kws entity
           = Max ((\<lambda>name. ratio (lower entity) (lower name)) ` set kws)"
proof -
  let ?S = "(\<lambda>name. ratio (lower entity) (lower name)) ` set kws"
  have ne: "?S \<noteq> {}" and fin: "finite ?S"
    using assms(1) by simp_all
  have "0 \<le> Max ?S"
    using assms ne fin by (auto simp: Max_ge_iff neq_Nil_conv)
  moreover have "Max (insert 0 ?S) = max 0 (Max ?S)"
    using fin ne by (rule Max_insert)
  ultimately show ?thesis
    by (simp add: entity_max_def max_absorb2)
qed

subsection \<open>The keyword builders\<close>

text \<open>
  C2. For one configuration, every document and every keyword list, whatever
  \<open>re.search\<close> answers: the function built by KeywordPresenceExactMatch returns
  ReturnLabel exactly when the function built by KeywordAbsenceExactMatch returns
  ABSTAIN, it returns ABSTAIN exactly when the other returns ReturnLabel, and one raises
  exactly when the other does.
\<close>

theorem Keyword_presence_absence_complement:
  assumes "KeywordPresenceExactMatch search kw = Inr p"
    and "KeywordAbsenceExactMatch search kw = Inr a"
    and "ReturnLabel kw = Some rl"
  shows "(lf_call p d = Inr rl \<longleftrightarrow> lf_call a d = Inr ABSTAIN)
       \<and> (lf_call p d = Inr ABSTAIN \<longleftrightarrow> lf_call a d = Inr rl)
       \<and> (\<forall>e. lf_call p d = Inl e \<longleftrightarrow> lf_call a d = Inl e)"
proof -
  from assms(1,3) obtain name kws where
    p: "p = \<lparr>lf_name = name, lf_call = CheckForKeywordExactMatch search kws rl\<rparr>"
    and kws: "ListOfKeywords kw = Some kws"
    by (auto simp: KeywordPresenceExactMatch_Inr)
  from assms(2,3) kws obtain name' where
    a: "a = \<lparr>lf_name = name', lf_call = CheckForKeywordAbsenceExactMatch search kws rl\<rparr>"
    by (auto simp: KeywordAbsenceExactMatch_Inr)
  show ?thesis
    using keyword_presence_label_iff [of search kws rl "lower (doc_text d)"]
      keyword_presence_abstain_iff [of search kws rl "lower (doc_text d)"]
      keyword_error_iff [of search kws rl "lower (doc_text d)"]
    by (simp add: p a CheckForKeywordExactMatch_def CheckForKeywordAbsenceExactMatch_def)
qed

theorem Keyword_presence_absence_complement_witness:
  "KeywordPresenceExactMatch model_search
     (no_kwargs\<lparr>LabelingFunctionName := Some ''LF_fraud'', ListOfKeywords := Some [''fraud''],
                ReturnLabel := Some 2\<rparr>)
     = Inr \<lparr>lf_name = ''LF_fraud'',
            lf_call = CheckForKeywordExactMatch model_search [''fraud''] 2\<rparr>
   \<and> KeywordAbsenceExactMatch model_search
     (no_kwargs\<lparr>LabelingFunctionName := Some ''LF_fraud'', ListOfKeywords := Some [''fraud''],
                ReturnLabel := Some 2\<rparr>)
     = Inr \<lparr>lf_name = ''LF_fraud'',
            lf_call = CheckForKeywordAbsenceExactMatch model_search [''fraud''] 2\<rparr>
   \<and> CheckForKeywordExactMatch model_search [''fraud''] 2
        \<lparr>doc_text = ''we detected fraud here'', ents = []\<rparr> = Inr 2
   \<and> CheckForKeywordAbsenceExactMatch model_search [''fraud''] 2
        \<lparr>doc_text = ''we detected fraud here'', ents = []\<rparr> = Inr ABSTAIN
   \<and> CheckForKeywordExactMatch model_search [''fraud''] 2
        \<lparr>doc_text = ''fraudulent activity'', ents = []\<rparr> = Inr ABSTAIN
   \<and> CheckForKeywordAbsenceExactMatch model_search [''fraud''] 2
        \<lparr>doc_text = ''fraudulent activity'', ents = []\<rparr> = Inr 2"
proof -
  let ?kw = "no_kwargs\<lparr>LabelingFunctionName := Some ''LF_fraud'',
                ListOfKeywords := Some [''fraud''], ReturnLabel := Some 2\<rparr>"
  let ?p = "\<lparr>lf_name = ''LF_fraud'',
            lf_call = CheckForKeywordExactMatch model_search [''fraud''] 2\<rparr>"
  let ?a = "\<lparr>lf_name = ''LF_fraud'',
            lf_call = CheckForKeywordAbsenceExactMatch model_search [''fraud''] 2\<rparr>"
  let ?d1 = "\<lparr>doc_text = ''we detected fraud here'', ents = []\<rparr>"
  let ?d2 = "\<lparr>doc_text = ''fraudulent activity'', ents = []\<rparr>"
  have h1: "KeywordPresenceExactMatch model_search ?kw = Inr ?p"
    by (simp add: KeywordPresenceExactMatch_def getitem_def no_kwargs_def)
  have h2: "KeywordAbsenceExactMatch model_search ?kw = Inr ?a"
    by (simp add: KeywordAbsenceExactMatch_def getitem_def no_kwargs_def)
  have h3: "ReturnLabel ?kw = Some 2"
    by simp
  have e1: "CheckForKeywordExactMatch model_search [''fraud''] 2 ?d1 = Inr 2"
    by code_simp
  have e2: "CheckForKeywordExactMatch model_search [''fraud''] 2 ?d2 = Inr ABSTAIN"
    by code_simp
  have c1: "CheckForKeywordAbsenceExactMatch model_search [''fraud''] 2 ?d1 = Inr ABSTAIN"
    using Keyword_presence_absence_complement [OF h1 h2 h3, of ?d1] e1
    by (simp only: labeling_function.select_convs simp_thms)
  have c2: "CheckForKeywordAbsenceExactMatch model_search [''fraud''] 2 ?d2 = Inr 2"
    using Keyword_presence_absence_complement [OF h1 h2 h3, of ?d2] e2
    by (simp only: labeling_function.select_convs simp_thms)
  from h1 h2 e1 e2 c1 c2 show ?thesis
    by (simp only: simp_thms)
qed

text \<open>
  C10. With the empty keyword list, the function built by KeywordPresenceExactMatch
  returns ABSTAIN on every document and the function built by KeywordAbsenceExactMatch
  returns ReturnLabel on every document.
\<close>

theorem empty_keyword_list:
  assumes "KeywordPresenceExactMatch search kw = Inr p"
    and "KeywordAbsenceExactMatch search kw = Inr a"
    and "ListOfKeywords kw = Some []"
    and "ReturnLabel kw = Some rl"
  shows "lf_call p d = Inr ABSTAIN \<and> lf_call a d = Inr rl"
  using assms
  by (auto simp: KeywordPresenceExactMatch_Inr KeywordAbsenceExactMatch_Inr
      CheckForKeywordExactMatch_def CheckForKeywordAbsenceExactMatch_def)

theorem empty_keyword_list_witness:
  "KeywordPresenceExactMatch model_search
     (no_kwargs\<lparr>LabelingFunctionName := Some ''LF_none'', ListOfKeywords := Some [],
                ReturnLabel := Some 7\<rparr>)
     = Inr \<lparr>lf_name = ''LF_none'', lf_call = CheckForKeywordExactMatch model_search [] 7\<rparr>
   \<and> KeywordAbsenceExactMatch model_search
     (no_kwargs\<lparr>LabelingFunctionName := Some ''LF_none'', ListOfKeywords := Some [],
                ReturnLabel := Some 7\<rparr>)
     = Inr \<lparr>lf_name = ''LF_none'',
            lf_call = CheckForKeywordAbsenceExactMatch model_search [] 7\<rparr>
   \<and> CheckForKeywordExactMatch model_search [] 7
        \<lparr>doc_text = ''any text at all'', ents = []\<rparr> = Inr ABSTAIN
   \<and> CheckForKeywordAbsenceExactMatch model_search [] 7
        \<lparr>doc_text = ''any text at all'', ents = []\<rparr> = Inr 7"
proof -
  let ?kw = "no_kwargs\<lparr>LabelingFunctionName := Some ''LF_none'',
                ListOfKeywords := Some [], ReturnLabel := Some 7\<rparr>"
  let ?p = "\<lparr>lf_name = ''LF_none'', lf_call = CheckForKeywordExactMatch model_search [] 7\<rparr>"
  let ?a = "\<lparr>lf_name = ''LF_none'',
            lf_call = CheckForKeywordAbsenceExactMatch model_search [] 7\<rparr>"
  have h1: "KeywordPresenceExactMatch model_search ?kw = Inr ?p"
    by (simp add: KeywordPresenceExactMatch_def getitem_def no_kwargs_def)
  have h2: "KeywordAbsenceExactMatch model_search ?kw = Inr ?a"
    by (simp add: KeywordAbsenceExactMatch_def getitem_def no_kwargs_def)
  have h3: "ListOfKeywords ?kw = Some []" and h4: "ReturnLabel ?kw = Some 7"
    by simp_all
  have c: "CheckForKeywordExactMatch model_search [] 7
             \<lparr>doc_text = ''any text at all'', ents = []\<rparr> = Inr ABSTAIN
         \<and> CheckForKeywordAbsenceExactMatch model_search [] 7
             \<lparr>doc_text = ''any text at all'', ents = []\<rparr> = Inr 7"
    using empty_keyword_list [OF h1 h2 h3 h4,
        of "\<lparr>doc_text = ''any text at all'', ents = []\<rparr>"]
    by (simp only: labeling_function.select_convs simp_thms)
  from h1 h2 c show ?thesis
    by (simp only: simp_thms)
qed

subsection \<open>The sentiment and fuzzy-match builders\<close>

lemma sentiment_checker_value:
  assumes "sentiment (doc_text d) = (polarity, subjectivity)"
  shows "TextBlobSentimentChecker sentiment pl pu sl su rl d =
     (if py_lt pl polarity \<and> py_lt polarity pu \<and> py_lt sl subjectivity \<and> py_lt subjectivity su
      then rl else ABSTAIN)"
  using assms by (auto simp: TextBlobSentimentChecker_def py_gt_def Let_def)

text \<open>
  C5. The function built by SentimentChecker returns ReturnLabel when
  PolarityLower < polarity < PolarityUpper and SubjectivityLower < subjectivity <
  SubjectivityUpper, all four strict, and ABSTAIN otherwise; so, for a ReturnLabel other
  than ABSTAIN, it returns ReturnLabel exactly when the four inequalities hold. A
  polarity or subjectivity equal to one of the four thresholds gives ABSTAIN, and so
  does every document when a lower threshold is at or above its upper threshold.
\<close>

theorem sentiment_strict_bounds:
  assumes "SentimentChecker sentiment kw = Inr f"
    and "PolarityLower kw = Some pl" and "PolarityUpper kw = Some pu"
    and "SubjectivityLower kw = Some sl" and "SubjectivityUpper kw = Some su"
    and "ReturnLabel kw = Some rl"
    and "sentiment (doc_text d) = (polarity, subjectivity)"
  shows "lf_call f d =
           Inr (if py_lt pl polarity \<and> py_lt polarity pu
                   \<and> py_lt sl subjectivity \<and> py_lt subjectivity su
                then rl else ABSTAIN)
       \<and> (rl \<noteq> ABSTAIN \<longrightarrow>
            (lf_call f d = Inr rl \<longleftrightarrow>
               py_lt pl polarity \<and> py_lt polarity pu
               \<and> py_lt sl subjectivity \<and> py_lt subjectivity su))
       \<and> (polarity = pl \<or> polarity = pu \<or> subjectivity = sl \<or> subjectivity = su
            \<longrightarrow> lf_call f d = Inr ABSTAIN)
       \<and> (py_ge pl pu \<or> py_ge sl su \<longrightarrow> lf_call f d = Inr ABSTAIN)"
proof -
  from assms(1-6) obtain name where
    f: "f = \<lparr>lf_name = name,
             lf_call = (\<lambda>d. Inr (TextBlobSentimentChecker sentiment pl pu sl su rl d))\<rparr>"
    by (auto simp: SentimentChecker_Inr)
  have v: "lf_call f d =
           Inr (if py_lt pl polarity \<and> py_lt polarity pu
                   \<and> py_lt sl subjectivity \<and> py_lt subjectivity su
                then rl else ABSTAIN)"
    using sentiment_checker_value [of sentiment d polarity subjectivity pl pu sl su rl] assms(7)
    by (simp add: f)
  have b: "polarity = pl \<or> polarity = pu \<or> subjectivity = sl \<or> subjectivity = su
            \<longrightarrow> lf_call f d = Inr ABSTAIN"
    using v py_lt_irrefl by auto
  have g: "py_ge pl pu \<or> py_ge sl su \<longrightarrow> lf_call f d = Inr ABSTAIN"
    using v py_ge_not_between [of pl pu polarity] py_ge_not_between [of sl su subjectivity]
    by auto
  from v b g show ?thesis by auto
qed

theorem sentiment_strict_bounds_witness:
  "SentimentChecker (\<lambda>t. (Fin (1/2), Fin (1/4)))
     (no_kwargs\<lparr>LabelingFunctionName := Some ''LF_pos'', SubjectivityLower := Some (Fin 0),
        SubjectivityUpper := Some (Fin 1), PolarityLower := Some (Fin 0),
        PolarityUpper := Some (Fin 1), ReturnLabel := Some 1\<rparr>)
     = Inr \<lparr>lf_name = ''LF_pos'',
            lf_call = (\<lambda>d. Inr (TextBlobSentimentChecker (\<lambda>t. (Fin (1/2), Fin (1/4)))
                                   (Fin 0) (Fin 1) (Fin 0) (Fin 1) 1 d))\<rparr>
   \<and> TextBlobSentimentChecker (\<lambda>t. (Fin (1/2), Fin (1/4))) (Fin 0) (Fin 1) (Fin 0) (Fin 1) 1
        \<lparr>doc_text = ''a fine day'', ents = []\<rparr> = 1
   \<and> SentimentChecker (\<lambda>t. (Fin (1/2), Fin (1/4)))
     (no_kwargs\<lparr>LabelingFunctionName := Some ''LF_edge'', SubjectivityLower := Some (Fin 0),
        SubjectivityUpper := Some (Fin 1), PolarityLower := Some (Fin (1/2)),
        PolarityUpper := Some (Fin 1), ReturnLabel := Some 1\<rparr>)
     = Inr \<lparr>lf_name = ''LF_edge'',
            lf_call = (\<lambda>d. Inr (TextBlobSentimentChecker (\<lambda>t. (Fin (1/2), Fin (1/4)))
                                   (Fin (1/2)) (Fin 1) (Fin 0) (Fin 1) 1 d))\<rparr>
   \<and> TextBlobSentimentChecker (\<lambda>t. (Fin (1/2), Fin (1/4))) (Fin (1/2)) (Fin 1) (Fin 0) (Fin 1) 1
        \<lparr>doc_text = ''a fine day'', ents = []\<rparr> = ABSTAIN"
proof -
  let ?s = "\<lambda>t::string. (Fin (1/2), Fin (1/4))"
  let ?d = "\<lparr>doc_text = ''a fine day'', ents = []\<rparr>"
  let ?kw = "no_kwargs\<lparr>LabelingFunctionName := Some ''LF_pos'',
        SubjectivityLower := Some (Fin 0), SubjectivityUpper := Some (Fin 1),
        PolarityLower := Some (Fin 0), PolarityUpper := Some (Fin 1), ReturnLabel := Some 1\<rparr>"
  let ?kw' = "no_kwargs\<lparr>LabelingFunctionName := Some ''LF_edge'',
        SubjectivityLower := Some (Fin 0), SubjectivityUpper := Some (Fin 1),
        PolarityLower := Some (Fin (1/2)), PolarityUpper := Some (Fin 1),
        ReturnLabel := Some 1\<rparr>"
  let ?f = "\<lparr>lf_name = ''LF_pos'',
            lf_call = (\<lambda>d. Inr (TextBlobSentimentChecker ?s
                                   (Fin 0) (Fin 1) (Fin 0) (Fin 1) 1 d) :: error + int)\<rparr>"
  let ?f' = "\<lparr>lf_name = ''LF_edge'',
            lf_call = (\<lambda>d. Inr (TextBlobSentimentChecker ?s
                                   (Fin (1/2)) (Fin 1) (Fin 0) (Fin 1) 1 d) :: error + int)\<rparr>"
  have h1: "SentimentChecker ?s ?kw = Inr ?f"
    by (simp add: SentimentChecker_def getitem_def no_kwargs_def)
  have h1': "SentimentChecker ?s ?kw' = Inr ?f'"
    by (simp add: SentimentChecker_def getitem_def no_kwargs_def)
  have k: "PolarityLower ?kw = Some (Fin 0)" "PolarityUpper ?kw = Some (Fin 1)"
    "SubjectivityLower ?kw = Some (Fin 0)" "SubjectivityUpper ?kw = Some (Fin 1)"
    "ReturnLabel ?kw = Some 1"
    by simp_all
  have k': "PolarityLower ?kw' = Some (Fin (1/2))" "PolarityUpper ?kw' = Some (Fin 1)"
    "SubjectivityLower ?kw' = Some (Fin 0)" "SubjectivityUpper ?kw' = Some (Fin 1)"
    "ReturnLabel ?kw' = Some 1"
    by simp_all
  have a: "lf_call ?f ?d = Inr 1"
    using sentiment_strict_bounds [where sentiment = "?s" and d = "?d"
        and polarity = "Fin (1/2)" and subjectivity = "Fin (1/4)", OF h1 k]
    by simp
  have b: "lf_call ?f' ?d = Inr ABSTAIN"
    using sentiment_strict_bounds [where sentiment = "?s" and d = "?d"
        and polarity = "Fin (1/2)" and subjectivity = "Fin (1/4)", OF h1' k']
    by simp
  from h1 h1' a b show ?thesis by simp
qed

text \<open>
  C9. With FuzzyMatchThreshold at or below 0, the function built by
  NamedEntityFuzzyMatch returns ReturnLabel on every document that has an entity of the
  tag NERTag, whatever the gazetteer holds, the empty gazetteer included: the running
  maximum starts at 0 and never falls.
\<close>

theorem fuzzy_low_threshold:
  assumes "NamedEntityFuzzyMatch ratio kw = Inr f"
    and "FuzzyMatchThreshold kw = Some threshold"
    and "threshold \<le> 0"
    and "NERTag kw = Some tag"
    and "ReturnLabel kw = Some rl"
    and "\<exists>e \<in> set (ents d). ent_label e = tag"
  shows "lf_call f d = Inr rl"
proof -
  from assms(1,2,4,5) obtain name kws where
    f: "f = \<lparr>lf_name = name,
             lf_call = (\<lambda>d. Inr (CheckForNamedEntityFuzzyMatch ratio kws rl threshold tag d))\<rparr>"
    by (auto simp: NamedEntityFuzzyMatch_Inr)
  have "ents_loop ratio kws rl threshold tag 0 (ents d) = rl"
    using assms(3,6) by (rule ents_loop_low_threshold)
  then show ?thesis
    by (simp add: f CheckForNamedEntityFuzzyMatch_def)
qed

theorem fuzzy_low_threshold_witness:
  "NamedEntityFuzzyMatch (\<lambda>a b. if a = b then 100 else 40)
     (no_kwargs\<lparr>LabelingFunctionName := Some ''LF_gaz'', NERTag := Some ''ORG'',
        ReturnLabel := Some 3, ListOfKeywords := Some [], FuzzyMatchThreshold := Some 0\<rparr>)
     = Inr \<lparr>lf_name = ''LF_gaz'',
            lf_call = (\<lambda>d. Inr (CheckForNamedEntityFuzzyMatch (\<lambda>a b. if a = b then 100 else 40)
                                   [] 3 0 ''ORG'' d))\<rparr>
   \<and> CheckForNamedEntityFuzzyMatch (\<lambda>a b. if a = b then 100 else 40) [] 3 0 ''ORG''
        \<lparr>doc_text = ''Acme Corp hired Jane'',
         ents = [\<lparr>ent_text = ''Jane'', ent_label = ''PERSON''\<rparr>,
                 \<lparr>ent_text = ''Acme Corp'', ent_label = ''ORG''\<rparr>]\<rparr> = 3"
proof -
  let ?r = "\<lambda>a b :: string. if a = b then 100 else (40 :: int)"
  let ?kw = "no_kwargs\<lparr>LabelingFunctionName := Some ''LF_gaz'', NERTag := Some ''ORG'',
        ReturnLabel := Some 3, ListOfKeywords := Some [], FuzzyMatchThreshold := Some 0\<rparr>"
  let ?f = "\<lparr>lf_name = ''LF_gaz'',
            lf_call = (\<lambda>d. Inr (CheckForNamedEntityFuzzyMatch ?r [] 3 0 ''ORG'' d)
                         :: error + int)\<rparr>"
  let ?d = "\<lparr>doc_text = ''Acme Corp hired Jane'',
         ents = [\<lparr>ent_text = ''Jane'', ent_label = ''PERSON''\<rparr>,
                 \<lparr>ent_text = ''Acme Corp'', ent_label = ''ORG''\<rparr>]\<rparr>"
  have h1: "NamedEntityFuzzyMatch ?r ?kw = Inr ?f"
    by (simp add: NamedEntityFuzzyMatch_def getitem_def no_kwargs_def)
  have h2: "FuzzyMatchThreshold ?kw = Some 0" and h3: "(0::int) \<le> 0"
    and h4: "NERTag ?kw = Some ''ORG''" and h5: "ReturnLabel ?kw = Some 3"
    by simp_all
  have h6: "\<exists>e \<in> set (ents ?d). ent_label e = ''ORG''"
    by simp
  have "lf_call ?f ?d = Inr 3"
    by (rule fuzzy_low_threshold [OF h1 h2 h3 h4 h5 h6])
  with h1 show ?thesis by simp
qed



subsection \<open>Missing keyword arguments\<close>

lemma NERTagPresence_KeyError:
  "is_KeyError (NERTagPresence kw) \<longleftrightarrow>
     LabelingFunctionName kw = None \<or> NERTag kw = None \<or> ReturnLabel kw = None"
  by (auto simp: NERTagPresence_def getitem_def split: option.splits)

lemma NERTagAbsence_KeyError:
  "is_KeyError (NERTagAbsence kw) \<longleftrightarrow>
     LabelingFunctionName kw = None \<or> NERTag kw = None \<or> ReturnLabel kw = None"
  by (auto simp: NERTagAbsence_def getitem_def split: option.splits)

lemma SentimentChecker_KeyError:
  "is_KeyError (SentimentChecker sentiment kw) \<longleftrightarrow>
     LabelingFunctionName kw = None \<or> SubjectivityLower kw = None
     \<or> SubjectivityUpper kw = None \<or> PolarityLower kw = None \<or> PolarityUpper kw = None
     \<or> ReturnLabel kw = None"
  by (auto simp: SentimentChecker_def getitem_def split: option.splits)

lemma KeywordPresenceExactMatch_KeyError:
  "is_KeyError (KeywordPresenceExactMatch search kw) \<longleftrightarrow>
     LabelingFunctionName kw = None \<or> ListOfKeywords kw = None \<or> ReturnLabel kw = None"
  by (auto simp: KeywordPresenceExactMatch_def getitem_def split: option.splits)

lemma KeywordAbsenceExactMatch_KeyError:
  "is_KeyError (KeywordAbsenceExactMatch search kw) \<longleftrightarrow>
     LabelingFunctionName kw = None \<or> ListOfKeywords kw = None \<or> ReturnLabel kw = None"
  by (auto simp: KeywordAbsenceExactMatch_def getitem_def split: option.splits)

lemma NamedEntityFuzzyMatch_KeyError:
  "is_KeyError (NamedEntityFuzzyMatch ratio kw) \<longleftrightarrow>
     LabelingFunctionName kw = None \<or> ListOfKeywords kw = None \<or> ReturnLabel kw = None
     \<or> FuzzyMatchThreshold kw = None \<or> NERTag kw = None"
  by (auto simp: NamedEntityFuzzyMatch_def getitem_def split: option.splits)

lemma builder_cases:
  "is_KeyError (NERTagPresence kw) \<or> (\<exists>f. NERTagPresence kw = Inr f)"
  "is_KeyError (NERTagAbsence kw) \<or> (\<exists>f. NERTagAbsence kw = Inr f)"
  "is_KeyError (SentimentChecker sentiment kw) \<or> (\<exists>f. SentimentChecker sentiment kw = Inr f)"
  "is_KeyError (KeywordPresenceExactMatch search kw) \<or> (\<exists>f. KeywordPresenceExactMatch search kw = Inr f)"
  "is_KeyError (KeywordAbsenceExactMatch search kw) \<or> (\<exists>f. KeywordAbsenceExactMatch search kw = Inr f)"
  "is_KeyError (NamedEntityFuzzyMatch ratio kw) \<or> (\<exists>f. NamedEntityFuzzyMatch ratio kw = Inr f)"
  by (auto simp: NERTagPresence_def NERTagAbsence_def SentimentChecker_def
      KeywordPresenceExactMatch_def KeywordAbsenceExactMatch_def NamedEntityFuzzyMatch_def
      getitem_def split: option.splits)

lemma call_no_KeyError:
  "NERTagPresence kw = Inr f \<Longrightarrow> \<not> is_KeyError (lf_call f d)"
  "NERTagAbsence kw = Inr f \<Longrightarrow> \<not> is_KeyError (lf_call f d)"
  "SentimentChecker sentiment kw = Inr f \<Longrightarrow> \<not> is_KeyError (lf_call f d)"
  "KeywordPresenceExactMatch search kw = Inr f \<Longrightarrow> \<not> is_KeyError (lf_call f d)"
  "KeywordAbsenceExactMatch search kw = Inr f \<Longrightarrow> \<not> is_KeyError (lf_call f d)"
  "NamedEntityFuzzyMatch ratio kw = Inr f \<Longrightarrow> \<not> is_KeyError (lf_call f d)"
  by (auto simp: NERTagPresence_Inr NERTagAbsence_Inr SentimentChecker_Inr
      KeywordPresenceExactMatch_Inr KeywordAbsenceExactMatch_Inr NamedEntityFuzzyMatch_Inr
      is_KeyError_iff CheckForKeywordExactMatch_def CheckForKeywordAbsenceExactMatch_def
      keyword_presence_no_KeyError keyword_absence_no_KeyError)

text \<open>
  C7. Each of the six builders raises KeyError, and builds nothing, exactly when one of
  the keyword arguments it reads is absent; otherwise it returns a function, and that
  function raises no KeyError on any document. The scorers and \<open>re.search\<close> are
  arbitrary.
\<close>

theorem missing_key_fails_at_construction:
  "(is_KeyError (NERTagPresence kw) \<longleftrightarrow>
      LabelingFunctionName kw = None \<or> NERTag kw = None \<or> ReturnLabel kw = None)
   \<and> (is_KeyError (NERTagPresence kw) \<or> (\<exists>f. NERTagPresence kw = Inr f))
   \<and> (\<forall>f d. NERTagPresence kw = Inr f \<longrightarrow> \<not> is_KeyError (lf_call f d))
   \<and> (is_KeyError (NERTagAbsence kw) \<longleftrightarrow>
      LabelingFunctionName kw = None \<or> NERTag kw = None \<or> ReturnLabel kw = None)
   \<and> (is_KeyError (NERTagAbsence kw) \<or> (\<exists>f. NERTagAbsence kw = Inr f))
   \<and> (\<forall>f d. NERTagAbsence kw = Inr f \<longrightarrow> \<not> is_KeyError (lf_call f d))
   \<and> (is_KeyError (SentimentChecker sentiment kw) \<longleftrightarrow>
      LabelingFunctionName kw = None \<or> SubjectivityLower kw = None
      \<or> SubjectivityUpper kw = None \<or> PolarityLower kw = None \<or> PolarityUpper kw = None
      \<or> ReturnLabel kw = None)
   \<and> (is_KeyError (SentimentChecker sentiment kw)
        \<or> (\<exists>f. SentimentChecker sentiment kw = Inr f))
   \<and> (\<forall>f d. SentimentChecker sentiment kw = Inr f \<longrightarrow> \<not> is_KeyError (lf_call f d))
   \<and> (is_KeyError (KeywordPresenceExactMatch search kw) \<longleftrightarrow>
      LabelingFunctionName kw = None \<or> ListOfKeywords kw = None \<or> ReturnLabel kw = None)
   \<and> (is_KeyError (KeywordPresenceExactMatch search kw)
        \<or> (\<exists>f. KeywordPresenceExactMatch search kw = Inr f))
   \<and> (\<forall>f d. KeywordPresenceExactMatch search kw = Inr f \<longrightarrow> \<not> is_KeyError (lf_call f d))
   \<and> (is_KeyError (KeywordAbsenceExactMatch search kw) \<longleftrightarrow>
      LabelingFunctionName kw = None \<or> ListOfKeywords kw = None \<or> ReturnLabel kw = None)
   \<and> (is_KeyError (KeywordAbsenceExactMatch search kw)
        \<or> (\<exists>f. KeywordAbsenceExactMatch search kw = Inr f))
   \<and> (\<forall>f d. KeywordAbsenceExactMatch search kw = Inr f \<longrightarrow> \<not> is_KeyError (lf_call f d))
   \<and> (is_KeyError (NamedEntityFuzzyMatch ratio kw) \<longleftrightarrow>
      LabelingFunctionName kw = None \<or> ListOfKeywords kw = None \<or> ReturnLabel kw = None
      \<or> FuzzyMatchThreshold kw = None \<or> NERTag kw = None)
   \<and> (is_KeyError (NamedEntityFuzzyMatch ratio kw)
        \<or> (\<exists>f. NamedEntityFuzzyMatch ratio kw = Inr f))
   \<and> (\<forall>f d. NamedEntityFuzzyMatch ratio kw = Inr f \<longrightarrow> \<not> is_KeyError (lf_call f d))"
  by (intro conjI allI impI NERTagPresence_KeyError NERTagAbsence_KeyError
      SentimentChecker_KeyError KeywordPresenceExactMatch_KeyError
      KeywordAbsenceExactMatch_KeyError NamedEntityFuzzyMatch_KeyError builder_cases;
      erule call_no_KeyError)

theorem missing_key_fails_at_construction_witness:
  "NERTagPresence (no_kwargs\<lparr>LabelingFunctionName := Some ''LF_org'', ReturnLabel := Some 1\<rparr>)
     = Inl (KeyError ''NERTag'')
   \<and> NamedEntityFuzzyMatch (\<lambda>a b. 0)
       (no_kwargs\<lparr>LabelingFunctionName := Some ''LF_gaz'', ListOfKeywords := Some [''acme''],
          ReturnLabel := Some 1, NERTag := Some ''ORG''\<rparr>)
     = Inl (KeyError ''FuzzyMatchThreshold'')
   \<and> is_KeyError (NERTagPresence
        (no_kwargs\<lparr>LabelingFunctionName := Some ''LF_org'', ReturnLabel := Some 1\<rparr>))
   \<and> is_KeyError (NamedEntityFuzzyMatch (\<lambda>a b. 0)
       (no_kwargs\<lparr>LabelingFunctionName := Some ''LF_gaz'', ListOfKeywords := Some [''acme''],
          ReturnLabel := Some 1, NERTag := Some ''ORG''\<rparr>))
   \<and> \<not> is_KeyError (KeywordPresenceExactMatch model_search
        (no_kwargs\<lparr>LabelingFunctionName := Some ''LF_kw'', ListOfKeywords := Some [''(''],
           ReturnLabel := Some 1\<rparr>))
   \<and> \<not> is_KeyError (CheckForKeywordExactMatch model_search [''(''] 1 \<lparr>doc_text = ''a ( b'', ents = []\<rparr>)"
proof -
  let ?k1 = "no_kwargs\<lparr>LabelingFunctionName := Some ''LF_org'', ReturnLabel := Some 1\<rparr>"
  let ?k2 = "no_kwargs\<lparr>LabelingFunctionName := Some ''LF_gaz'',
          ListOfKeywords := Some [''acme''], ReturnLabel := Some 1, NERTag := Some ''ORG''\<rparr>"
  let ?k3 = "no_kwargs\<lparr>LabelingFunctionName := Some ''LF_kw'', ListOfKeywords := Some [''(''],
           ReturnLabel := Some 1\<rparr>"
  let ?f3 = "\<lparr>lf_name = ''LF_kw'', lf_call = CheckForKeywordExactMatch model_search [''(''] 1\<rparr>"
  let ?d = "\<lparr>doc_text = ''a ( b'', ents = []\<rparr>"
  have e1: "NERTagPresence ?k1 = Inl (KeyError ''NERTag'')"
    by (simp add: NERTagPresence_def getitem_def no_kwargs_def)
  have e2: "NamedEntityFuzzyMatch (\<lambda>a b. 0) ?k2 = Inl (KeyError ''FuzzyMatchThreshold'')"
    by (simp add: NamedEntityFuzzyMatch_def getitem_def no_kwargs_def)
  have e3: "KeywordPresenceExactMatch model_search ?k3 = Inr ?f3"
    by (simp add: KeywordPresenceExactMatch_def getitem_def no_kwargs_def)
  have m1: "NERTag ?k1 = None" and m2: "FuzzyMatchThreshold ?k2 = None"
    by (simp_all add: no_kwargs_def)
  have p3: "LabelingFunctionName ?k3 \<noteq> None" "ListOfKeywords ?k3 \<noteq> None"
    "ReturnLabel ?k3 \<noteq> None"
    by simp_all
  note T1 = missing_key_fails_at_construction
        [where kw = "?k1" and sentiment = "\<lambda>t. (NaN, NaN)" and ratio = "\<lambda>a b. 0"
          and search = model_search]
  note T2 = missing_key_fails_at_construction
        [where kw = "?k2" and sentiment = "\<lambda>t. (NaN, NaN)" and ratio = "\<lambda>a b. 0"
          and search = model_search]
  note T3 = missing_key_fails_at_construction
        [where kw = "?k3" and sentiment = "\<lambda>t. (NaN, NaN)" and ratio = "\<lambda>a b. 0"
          and search = model_search]
  have "is_KeyError (NERTagPresence ?k1) \<longleftrightarrow>
      LabelingFunctionName ?k1 = None \<or> NERTag ?k1 = None \<or> ReturnLabel ?k1 = None"
    using T1 by (elim conjE) assumption
  with m1 have a: "is_KeyError (NERTagPresence ?k1)"
    by (simp only: simp_thms)
  have "is_KeyError (NamedEntityFuzzyMatch (\<lambda>a b. 0) ?k2) \<longleftrightarrow>
      LabelingFunctionName ?k2 = None \<or> ListOfKeywords ?k2 = None \<or> ReturnLabel ?k2 = None
      \<or> FuzzyMatchThreshold ?k2 = None \<or> NERTag ?k2 = None"
    using T2 by (elim conjE) assumption
  with m2 have b: "is_KeyError (NamedEntityFuzzyMatch (\<lambda>a b. 0) ?k2)"
    by (simp only: simp_thms)
  have "is_KeyError (KeywordPresenceExactMatch model_search ?k3) \<longleftrightarrow>
      LabelingFunctionName ?k3 = None \<or> ListOfKeywords ?k3 = None \<or> ReturnLabel ?k3 = None"
    using T3 by (elim conjE) assumption
  with p3 have c: "\<not> is_KeyError (KeywordPresenceExactMatch model_search ?k3)"
    by (simp only: simp_thms)
  have "\<forall>f d. KeywordPresenceExactMatch model_search ?k3 = Inr f \<longrightarrow> \<not> is_KeyError (lf_call f d)"
    using T3 by (elim conjE) assumption
  then have "KeywordPresenceExactMatch model_search ?k3 = Inr ?f3 \<longrightarrow> \<not> is_KeyError (lf_call ?f3 ?d)"
    by (elim allE)
  with e3 have d: "\<not> is_KeyError (CheckForKeywordExactMatch model_search [''(''] 1 ?d)"
    by (simp only: labeling_function.select_convs simp_thms)
  from e1 e2 a b c d show ?thesis
    by (simp only: simp_thms)
qed

subsection \<open>Search functions that follow the model\<close>

lemma follows_re_found:
  "follows_re search \<Longrightarrow> re_model pattern s = Inr found \<Longrightarrow> search pattern s = Some found"
  unfolding follows_re_def by (erule allE [of _ pattern], erule allE [of _ s]) simp

lemma follows_re_error:
  "follows_re search \<Longrightarrow> re_model pattern s = Inl BadPattern \<Longrightarrow> search pattern s = None"
  unfolding follows_re_def by (erule allE [of _ pattern], erule allE [of _ s]) simp

lemma model_search_follows: "follows_re model_search"
  by (auto simp: follows_re_def model_search_def split: sum.splits re_failure.splits)

subsection \<open>The matcher decides the regular language of the pattern\<close>

lemma conc_empty [simp]: "conc {} B = {}" "conc A {} = {}"
  by (auto simp: conc_def)

lemma conc_eps [simp]: "conc {[]} B = B" "conc A {[]} = A"
  by (auto simp: conc_def)

lemma Nil_in_conc: "[] \<in> conc A B \<longleftrightarrow> [] \<in> A \<and> [] \<in> B"
  by (auto simp: conc_def)

lemma Cons_in_conc:
  "c # s \<in> conc A B \<longleftrightarrow>
     (\<exists>u v. s = u @ v \<and> c # u \<in> A \<and> v \<in> B) \<or> ([] \<in> A \<and> c # s \<in> B)"
  by (auto simp: conc_def Cons_eq_append_conv)

lemma star_Cons_split:
  assumes "x \<in> star A" and "x = c # s"
  shows "\<exists>u v. s = u @ v \<and> c # u \<in> A \<and> v \<in> star A"
  using assms
proof (induction arbitrary: s rule: star.induct)
  case star_empty
  then show ?case by simp
next
  case (star_step xs ys)
  show ?case
  proof (cases xs)
    case Nil
    with star_step show ?thesis by simp
  next
    case (Cons a u)
    with star_step.prems have "a = c" "s = u @ ys" by simp_all
    with Cons star_step.hyps show ?thesis by blast
  qed
qed

lemma Cons_in_star:
  "c # s \<in> star A \<longleftrightarrow> (\<exists>u v. s = u @ v \<and> c # u \<in> A \<and> v \<in> star A)"
proof
  assume "c # s \<in> star A"
  then show "\<exists>u v. s = u @ v \<and> c # u \<in> A \<and> v \<in> star A"
    by (rule star_Cons_split) simp
next
  assume "\<exists>u v. s = u @ v \<and> c # u \<in> A \<and> v \<in> star A"
  then obtain u v where "s = u @ v" "c # u \<in> A" "v \<in> star A" by blast
  then show "c # s \<in> star A"
    using star_step [of "c # u" A v] by simp
qed

lemma lang_simp_seq: "lang (simp_seq r s) = conc (lang r) (lang s)"
  by (cases "(r, s)" rule: simp_seq.cases) simp_all

lemma lang_simp_alt: "lang (simp_alt r s) = lang r \<union> lang s"
  by (cases "(r, s)" rule: simp_alt.cases) simp_all

lemma nullable_lang: "nullable r \<longleftrightarrow> [] \<in> lang r"
  by (induction r) (simp_all add: Nil_in_conc star_empty)

lemma deriv_conc:
  "{s. c # s \<in> conc A B}
     = conc {u. c # u \<in> A} B \<union> (if [] \<in> A then {s. c # s \<in> B} else {})"
  by (auto simp: conc_def Cons_eq_append_conv)

lemma deriv_star: "{s. c # s \<in> star A} = conc {u. c # u \<in> A} (star A)"
  by (auto simp: Cons_in_star conc_def)

lemma lang_deriv: "lang (deriv c r) = {s. c # s \<in> lang r}"
proof (induction r)
  case (Seq r1 r2)
  then show ?case
    by (simp add: lang_simp_seq lang_simp_alt nullable_lang deriv_conc)
next
  case (Star r)
  then show ?case
    by (simp add: lang_simp_seq deriv_star)
next
  case (Alt r1 r2)
  then show ?case
    by (auto simp: lang_simp_alt)
qed auto

lemma match_here_lang: "match_here r s \<longleftrightarrow> (\<exists>p q. s = p @ q \<and> p \<in> lang r)"
proof (induction s arbitrary: r)
  case Nil
  show ?case by (simp add: nullable_lang)
next
  case (Cons c cs)
  have "(\<exists>p q. c # cs = p @ q \<and> p \<in> lang r)
          \<longleftrightarrow> [] \<in> lang r \<or> (\<exists>p q. cs = p @ q \<and> c # p \<in> lang r)"
    by (auto simp: Cons_eq_append_conv)
  then show ?case
    by (simp add: Cons.IH nullable_lang lang_deriv)
qed

lemma search_rx_lang: "search_rx r s \<longleftrightarrow> (\<exists>a p q. s = a @ p @ q \<and> p \<in> lang r)"
proof (induction s)
  case Nil
  show ?case by (simp add: nullable_lang)
next
  case (Cons c cs)
  have "(\<exists>a p q. c # cs = a @ p @ q \<and> p \<in> lang r)
          \<longleftrightarrow> (\<exists>p q. c # cs = p @ q \<and> p \<in> lang r)
              \<or> (\<exists>a p q. cs = a @ p @ q \<and> p \<in> lang r)"
    (is "?L \<longleftrightarrow> ?H \<or> ?T")
  proof
    assume ?L
    then obtain a p q where *: "c # cs = a @ p @ q" "p \<in> lang r" by blast
    show "?H \<or> ?T"
    proof (cases a)
      case Nil
      with * show ?thesis by auto
    next
      case (Cons x a')
      with * have "cs = a' @ p @ q" by simp
      with * show ?thesis by blast
    qed
  next
    assume "?H \<or> ?T"
    then show ?L
    proof
      assume ?H
      then obtain p q where "c # cs = [] @ p @ q" "p \<in> lang r" by auto
      then show ?L by blast
    next
      assume ?T
      then obtain a p q where "c # cs = (c # a) @ p @ q" "p \<in> lang r" by auto
      then show ?L by blast
    qed
  qed
  then show ?case
    using Cons.IH match_here_lang [of r "c # cs"] by simp
qed

subsection \<open>The pattern built around a keyword without special characters\<close>

lemma emit_Inr: "emit t (Inr ts) = Inr (t # ts)"
  by (simp add: emit_def)

lemma tokenize_plain:
  "plain_keyword kw \<Longrightarrow>
   tokenize (kw @ rest) = foldr (\<lambda>c. emit (TAtom (AChr c))) kw (tokenize rest)"
  by (induction kw) (simp_all add: plain_keyword_def)

lemma foldr_emit_Inr:
  "foldr (\<lambda>c. emit (TAtom (AChr c))) kw (Inr ts) = Inr (map (\<lambda>c. TAtom (AChr c)) kw @ ts)"
  by (induction kw) (simp_all add: emit_Inr)

lemma tokenize_boundary_group:
  "tokenize (''([^a-z0-9])'' @ rest)
     = emit TOpen (emit (TAtom (ASet True [(CHR ''a'', CHR ''z''), (CHR ''0'', CHR ''9'')]))
         (emit TClose (tokenize rest)))"
  by (simp add: special_of_def)

lemma tokenize_keyword_pattern:
  assumes "plain_keyword kw"
  shows "tokenize (''([^a-z0-9])'' @ kw @ ''([^a-z0-9])'')
     = Inr ([TOpen, TAtom (ASet True [(CHR ''a'', CHR ''z''), (CHR ''0'', CHR ''9'')]), TClose]
            @ map (\<lambda>c. TAtom (AChr c)) kw
            @ [TOpen, TAtom (ASet True [(CHR ''a'', CHR ''z''), (CHR ''0'', CHR ''9'')]), TClose])"
proof -
  have "tokenize (''([^a-z0-9])'' @ []) =
      Inr [TOpen, TAtom (ASet True [(CHR ''a'', CHR ''z''), (CHR ''0'', CHR ''9'')]), TClose]"
    unfolding tokenize_boundary_group by (simp add: emit_Inr)
  then have "tokenize (kw @ ''([^a-z0-9])'') =
      Inr (map (\<lambda>c. TAtom (AChr c)) kw
           @ [TOpen, TAtom (ASet True [(CHR ''a'', CHR ''z''), (CHR ''0'', CHR ''9'')]), TClose])"
    using tokenize_plain [OF assms, of "''([^a-z0-9])''"] by (simp add: foldr_emit_Inr)
  then show ?thesis
    unfolding tokenize_boundary_group by (simp add: emit_Inr)
qed

lemma parse_tokens_literals:
  "parse_tokens stack fr (map (\<lambda>c. TAtom (AChr c)) kw @ ts)
     = parse_tokens stack (fst fr, snd fr @ map (\<lambda>c. Atom (AChr c)) kw) ts"
  by (induction kw arbitrary: fr) simp_all

lemma re_compile_keyword_pattern:
  assumes "plain_keyword kw"
  shows "re_compile (''([^a-z0-9])'' @ kw @ ''([^a-z0-9])'')
     = Inr (mk_seq
         (Seq (Atom (ASet True [(CHR ''a'', CHR ''z''), (CHR ''0'', CHR ''9'')])) One
          # map (\<lambda>c. Atom (AChr c)) kw
          @ [Seq (Atom (ASet True [(CHR ''a'', CHR ''z''), (CHR ''0'', CHR ''9'')])) One]))"
  unfolding re_compile_def tokenize_keyword_pattern [OF assms]
  by (simp add: parse_tokens_literals close_frame_def)

lemma boundary_set: 
  "atom_matches (ASet True [(CHR ''a'', CHR ''z''), (CHR ''0'', CHR ''9'')]) c = boundary c"
  by (auto simp: boundary_def Let_def)

lemma lang_boundary_group:
  "lang (Seq (Atom (ASet True [(CHR ''a'', CHR ''z''), (CHR ''0'', CHR ''9'')])) One)
     = {[c] | c. boundary c}"
  by (simp add: boundary_set del: atom_matches.simps)

lemma lang_literals:
  "lang (mk_seq (map (\<lambda>c. Atom (AChr c)) kw @ rs)) = {kw @ s | s. s \<in> lang (mk_seq rs)}"
  by (induction kw) (auto simp: conc_def)

lemma conc_single:
  "conc {[c] | c. P c} B = {c # s | c s. P c \<and> s \<in> B}"
proof (intro set_eqI iffI)
  fix x
  assume "x \<in> conc {[c] | c. P c} B"
  then obtain xs ys where "x = xs @ ys" "xs \<in> {[c] | c. P c}" "ys \<in> B"
    by (auto simp: conc_def)
  then show "x \<in> {c # s | c s. P c \<and> s \<in> B}" by auto
next
  fix x
  assume "x \<in> {c # s | c s. P c \<and> s \<in> B}"
  then obtain c s where "x = [c] @ s" "[c] \<in> {[c] | c. P c}" "s \<in> B" by auto
  then show "x \<in> conc {[c] | c. P c} B"
    unfolding conc_def by blast
qed

lemma lang_keyword_pattern:
  "lang (mk_seq
         (Seq (Atom (ASet True [(CHR ''a'', CHR ''z''), (CHR ''0'', CHR ''9'')])) One
          # map (\<lambda>c. Atom (AChr c)) kw
          @ [Seq (Atom (ASet True [(CHR ''a'', CHR ''z''), (CHR ''0'', CHR ''9'')])) One]))
     = {c1 # kw @ [c2] | c1 c2. boundary c1 \<and> boundary c2}"
proof -
  let ?G = "Seq (Atom (ASet True [(CHR ''a'', CHR ''z''), (CHR ''0'', CHR ''9'')])) One"
  have "lang (mk_seq [?G]) = {[c] | c. boundary c}"
    using lang_boundary_group by simp
  then have "lang (mk_seq (map (\<lambda>c. Atom (AChr c)) kw @ [?G])) = {kw @ [c] | c. boundary c}"
    unfolding lang_literals by auto
  then have "lang (mk_seq (?G # map (\<lambda>c. Atom (AChr c)) kw @ [?G]))
      = conc {[c] | c. boundary c} {kw @ [c] | c. boundary c}"
    using lang_boundary_group by simp
  also have "\<dots> = {c1 # kw @ [c2] | c1 c2. boundary c1 \<and> boundary c2}"
    unfolding conc_single by auto
  finally show ?thesis .
qed

lemma occurs_here:
  "length kw < length cs \<and> take (length kw) cs = kw \<and> P (cs ! length kw)
     \<longleftrightarrow> (\<exists>c2 q. cs = kw @ c2 # q \<and> P c2)"
proof
  assume a: "length kw < length cs \<and> take (length kw) cs = kw \<and> P (cs ! length kw)"
  then have "cs = take (length kw) cs @ cs ! length kw # drop (Suc (length kw)) cs"
    by (intro id_take_nth_drop) simp
  with a have "cs = kw @ cs ! length kw # drop (Suc (length kw)) cs"
    by simp
  with a show "\<exists>c2 q. cs = kw @ c2 # q \<and> P c2" by blast
next
  assume "\<exists>c2 q. cs = kw @ c2 # q \<and> P c2"
  then show "length kw < length cs \<and> take (length kw) cs = kw \<and> P (cs ! length kw)"
    by auto
qed

lemma occurs_bounded_iff:
  "occurs_bounded kw s \<longleftrightarrow>
     (\<exists>a c1 c2 q. s = a @ c1 # kw @ c2 # q \<and> boundary c1 \<and> boundary c2)"
proof (induction s)
  case Nil
  show ?case by simp
next
  case (Cons c cs)
  have "(\<exists>a c1 c2 q. c # cs = a @ c1 # kw @ c2 # q \<and> boundary c1 \<and> boundary c2)
      \<longleftrightarrow> (boundary c \<and> (\<exists>c2 q. cs = kw @ c2 # q \<and> boundary c2))
          \<or> (\<exists>a c1 c2 q. cs = a @ c1 # kw @ c2 # q \<and> boundary c1 \<and> boundary c2)"
    (is "?L \<longleftrightarrow> ?H \<or> ?T")
  proof
    assume ?L
    then obtain a c1 c2 q where *: "c # cs = a @ c1 # kw @ c2 # q" "boundary c1" "boundary c2"
      by blast
    show "?H \<or> ?T"
    proof (cases a)
      case Nil
      with * show ?thesis by auto
    next
      case (Cons x a')
      with * have "cs = a' @ c1 # kw @ c2 # q" by simp
      with * show ?thesis by blast
    qed
  next
    assume "?H \<or> ?T"
    then show ?L
    proof
      assume ?H
      then obtain c2 q where "c # cs = [] @ c # kw @ c2 # q" "boundary c" "boundary c2"
        by auto
      then show ?L by blast
    next
      assume ?T
      then obtain a c1 c2 q where "c # cs = (c # a) @ c1 # kw @ c2 # q" "boundary c1" "boundary c2"
        by auto
      then show ?L by blast
    qed
  qed
  then show ?case
    using Cons.IH occurs_here [of kw cs boundary] by simp
qed

lemma re_model_keyword_pattern:
  assumes "plain_keyword kw"
  shows "re_model (''([^a-z0-9])'' @ kw @ ''([^a-z0-9])'') s = Inr (occurs_bounded kw s)"
proof -
  have "(\<exists>a p q. s = a @ p @ q \<and> p \<in> {c1 # kw @ [c2] | c1 c2. boundary c1 \<and> boundary c2})
      \<longleftrightarrow> (\<exists>a c1 c2 q. s = a @ c1 # kw @ c2 # q \<and> boundary c1 \<and> boundary c2)"
    (is "?L \<longleftrightarrow> ?R")
  proof
    assume ?L
    then obtain a q c1 c2 where "s = a @ (c1 # kw @ [c2]) @ q" "boundary c1" "boundary c2"
      by blast
    then have "s = a @ c1 # kw @ c2 # q" by simp
    with \<open>boundary c1\<close> \<open>boundary c2\<close> show ?R by blast
  next
    assume ?R
    then obtain a c1 c2 q where "s = a @ c1 # kw @ c2 # q" "boundary c1" "boundary c2"
      by blast
    then have "s = a @ (c1 # kw @ [c2]) @ q"
      "c1 # kw @ [c2] \<in> {c1 # kw @ [c2] | c1 c2. boundary c1 \<and> boundary c2}"
      by auto
    then show ?L by blast
  qed
  then show ?thesis
    unfolding re_model_def re_compile_keyword_pattern [OF assms]
    by (simp add: search_rx_lang lang_keyword_pattern occurs_bounded_iff
        del: mk_seq.simps lang.simps)
qed

text \<open>
  So, for keywords without special characters, a search function that follows the model
  makes the presence loop the literal test of the specification.
\<close>

lemma search_keyword_pattern:
  "follows_re search \<Longrightarrow> plain_keyword kw \<Longrightarrow>
   search (''([^a-z0-9])'' @ kw @ ''([^a-z0-9])'') s = Some (occurs_bounded kw s)"
  by (rule follows_re_found) (simp_all only: re_model_keyword_pattern)

lemma keyword_search_presence_plain:
  assumes "follows_re search"
  shows "list_all plain_keyword kws \<Longrightarrow>
   keyword_search_presence search kws rl s
     = Inr (if list_ex (\<lambda>kw. occurs_bounded kw s) kws then rl else ABSTAIN)"
  by (induction kws) (simp_all add: search_keyword_pattern [OF assms, simplified])

lemma keyword_search_presence_first:
  assumes "follows_re search"
  shows "list_all plain_keyword pre \<Longrightarrow> \<not> list_ex (\<lambda>kw. occurs_bounded kw s) pre \<Longrightarrow>
   plain_keyword kw \<Longrightarrow> occurs_bounded kw s \<Longrightarrow>
   keyword_search_presence search (pre @ kw # post) rl s = Inr rl"
  by (induction pre) (simp_all add: search_keyword_pattern [OF assms, simplified])

subsection \<open>The keyword is read as a pattern\<close>

text \<open>What the model answers on the patterns of four keywords.\<close>

lemma model_dot: "re_model (''([^a-z0-9])'' @ ''a.c'' @ ''([^a-z0-9])'') (lower '' abc '') = Inr True"
  by code_simp

lemma model_open_paren:
  "re_model (''([^a-z0-9])'' @ ''('' @ ''([^a-z0-9])'') (lower ''a ( b'') = Inl BadPattern"
  by code_simp

lemma model_group_at_start:
  "re_model (''([^a-z0-9])'' @ ''(a)'' @ ''([^a-z0-9])'') (lower ''(a) b'') = Inr True"
  by code_simp

lemma model_group_at_end:
  "re_model (''([^a-z0-9])'' @ ''(a)'' @ ''([^a-z0-9])'') (lower ''b (a)'') = Inr True"
  by code_simp

lemma model_apple_at_start:
  "re_model (''([^a-z0-9])'' @ ''apple'' @ ''([^a-z0-9])'') (lower ''apple pie'') = Inr False"
  by code_simp

lemma model_apple_inside:
  "re_model (''([^a-z0-9])'' @ ''apple'' @ ''([^a-z0-9])'') (lower '' apple pie '') = Inr True"
  by code_simp

lemma one_keyword_found:
  "search (''([^a-z0-9])'' @ k @ ''([^a-z0-9])'') (lower t) = Some True \<Longrightarrow>
   CheckForKeywordExactMatch search [k] rl \<lparr>doc_text = t, ents = es\<rparr> = Inr rl"
  by (simp only: CheckForKeywordExactMatch_def keyword_search_presence.simps
      spacy_doc.select_convs option.case if_True)

lemma one_keyword_not_found:
  "search (''([^a-z0-9])'' @ k @ ''([^a-z0-9])'') (lower t) = Some False \<Longrightarrow>
   CheckForKeywordExactMatch search [k] rl \<lparr>doc_text = t, ents = es\<rparr> = Inr ABSTAIN"
  by (simp only: CheckForKeywordExactMatch_def keyword_search_presence.simps
      spacy_doc.select_convs option.case if_False)

lemma one_keyword_raises:
  "search (''([^a-z0-9])'' @ k @ ''([^a-z0-9])'') (lower t) = None \<Longrightarrow>
   CheckForKeywordExactMatch search [k] rl \<lparr>doc_text = t, ents = es\<rparr> = Inl ReError"
  by (simp only: CheckForKeywordExactMatch_def keyword_search_presence.simps
      spacy_doc.select_convs option.case)

lemma keyword_occurrences:
  "\<not> occurs_bounded ''a.c'' (lower '' abc '')"
  "occurs_bounded ''('' (lower ''a ( b'')"
  "\<not> occurs_bounded ''(a)'' (lower ''(a) b'')"
  "\<not> occurs_bounded ''(a)'' (lower ''b (a)'')"
  by code_simp+

lemma keyword_at_the_edge:
  "lower ''(a) b'' = ''(a)'' @ '' b''"
  "lower ''b (a)'' = ''b '' @ ''(a)''"
  by code_simp+

text \<open>
  C3. The claim does not hold of the code: the keyword goes into the pattern as it is,
  without \<open>re.escape\<close>, so it is read as a regular expression. With the keyword list
  \<open>[a.c]\<close> the function returns ReturnLabel on the text \<open> abc \<close>, in which \<open>a.c\<close>
  does not occur; with the keyword list \<open>[(]\<close> it raises \<open>re.error\<close> on the text
  \<open>a ( b\<close>, in which \<open>(\<close> occurs between two spaces. This holds for every search
  function that follows the model of \<open>re.search\<close>. (For keywords without special
  characters the code does the literal test: \<open>keyword_search_presence_plain\<close>.)
\<close>

theorem keyword_is_a_pattern:
  assumes "follows_re search"
  shows "CheckForKeywordExactMatch search [''a.c''] rl \<lparr>doc_text = '' abc '', ents = es\<rparr>
           = Inr rl
       \<and> \<not> occurs_bounded ''a.c'' (lower '' abc '')
       \<and> CheckForKeywordExactMatch search [''(''] rl \<lparr>doc_text = ''a ( b'', ents = es\<rparr>
           = Inl ReError
       \<and> occurs_bounded ''('' (lower ''a ( b'')"
  using one_keyword_found [where search = search and rl = rl and es = es,
      OF follows_re_found [OF assms model_dot]]
    one_keyword_raises [where search = search and rl = rl and es = es,
      OF follows_re_error [OF assms model_open_paren]]
    keyword_occurrences(1,2)
  by (simp only: simp_thms)

theorem keyword_is_a_pattern_witness:
  "follows_re model_search
   \<and> CheckForKeywordExactMatch model_search [''a.c''] 2 \<lparr>doc_text = '' abc '', ents = []\<rparr>
       = Inr 2
   \<and> \<not> occurs_bounded ''a.c'' (lower '' abc '')
   \<and> CheckForKeywordExactMatch model_search [''(''] 2 \<lparr>doc_text = ''a ( b'', ents = []\<rparr>
       = Inl ReError
   \<and> occurs_bounded ''('' (lower ''a ( b'')"
  using model_search_follows keyword_is_a_pattern [OF model_search_follows, of 2 "[]"]
  by (simp only: simp_thms)

text \<open>
  C6. The two examples of the claim hold: with the keyword list \<open>[apple]\<close> the function
  returns ABSTAIN on \<open>apple pie\<close> and ReturnLabel on \<open> apple pie \<close>. The general
  statement does not hold of the code, for the same reason as C3: the keyword \<open>(a)\<close>
  stands at the very start of \<open>(a) b\<close>, and at the very end of \<open>b (a)\<close>, with no
  character on that side, and the function returns ReturnLabel on both, since the
  pattern reads the parentheses of the keyword as a group and its own boundary set
  matches them. This holds for every search function that follows the model of
  \<open>re.search\<close>.
\<close>

theorem keyword_at_the_edge_is_matched:
  assumes "follows_re search"
  shows "CheckForKeywordExactMatch search [''apple''] rl \<lparr>doc_text = ''apple pie'', ents = es\<rparr>
           = Inr ABSTAIN
       \<and> CheckForKeywordExactMatch search [''apple''] rl \<lparr>doc_text = '' apple pie '', ents = es\<rparr>
           = Inr rl
       \<and> lower ''(a) b'' = ''(a)'' @ '' b''
       \<and> CheckForKeywordExactMatch search [''(a)''] rl \<lparr>doc_text = ''(a) b'', ents = es\<rparr>
           = Inr rl
       \<and> lower ''b (a)'' = ''b '' @ ''(a)''
       \<and> CheckForKeywordExactMatch search [''(a)''] rl \<lparr>doc_text = ''b (a)'', ents = es\<rparr>
           = Inr rl"
  using one_keyword_not_found [where search = search and rl = rl and es = es,
      OF follows_re_found [OF assms model_apple_at_start]]
    one_keyword_found [where search = search and rl = rl and es = es,
      OF follows_re_found [OF assms model_apple_inside]]
    one_keyword_found [where search = search and rl = rl and es = es,
      OF follows_re_found [OF assms model_group_at_start]]
    one_keyword_found [where search = search and rl = rl and es = es,
      OF follows_re_found [OF assms model_group_at_end]]
    keyword_at_the_edge
  by (simp only: simp_thms)

theorem keyword_at_the_edge_is_matched_witness:
  "follows_re model_search
   \<and> CheckForKeywordExactMatch model_search [''apple''] 5 \<lparr>doc_text = ''apple pie'', ents = []\<rparr>
       = Inr ABSTAIN
   \<and> CheckForKeywordExactMatch model_search [''apple''] 5 \<lparr>doc_text = '' apple pie '', ents = []\<rparr>
       = Inr 5
   \<and> CheckForKeywordExactMatch model_search [''(a)''] 5 \<lparr>doc_text = ''(a) b'', ents = []\<rparr>
       = Inr 5
   \<and> CheckForKeywordExactMatch model_search [''(a)''] 5 \<lparr>doc_text = ''b (a)'', ents = []\<rparr>
       = Inr 5"
proof -
  note T = keyword_at_the_edge_is_matched [OF model_search_follows, of 5 "[]"]
  have a: "CheckForKeywordExactMatch model_search [''apple''] 5
             \<lparr>doc_text = ''apple pie'', ents = []\<rparr> = Inr ABSTAIN"
    using T by (elim conjE) assumption
  have b: "CheckForKeywordExactMatch model_search [''apple''] 5
             \<lparr>doc_text = '' apple pie '', ents = []\<rparr> = Inr 5"
    using T by (elim conjE) assumption
  have c: "CheckForKeywordExactMatch model_search [''(a)''] 5
             \<lparr>doc_text = ''(a) b'', ents = []\<rparr> = Inr 5"
    using T by (elim conjE) assumption
  have d: "CheckForKeywordExactMatch model_search [''(a)''] 5
             \<lparr>doc_text = ''b (a)'', ents = []\<rparr> = Inr 5"
    using T by (elim conjE) assumption
  from model_search_follows a b c d show ?thesis
    by (simp only: simp_thms)
qed

subsection \<open>The values a built function returns\<close>





end
